theory Spec2Isabelle
  imports Complex_Main "HOL-Library.Multiset" "HOL-Library.Word"
begin

section \<open>Data model\<close>

text \<open>
  The two tables of the migration \<^verbatim>\<open>CREATE TABLE "User"\<close> / \<^verbatim>\<open>CREATE TABLE "new_Todo"\<close>.
  Field names carry the table as a prefix, since both tables have \<^verbatim>\<open>id\<close>,
  \<^verbatim>\<open>createdAt\<close> and \<^verbatim>\<open>updatedAt\<close> columns. An \<^verbatim>\<open>INTEGER\<close> column holds a signed
  64-bit integer: a word, read with \<open>sint\<close>. Timestamps are points on one clock
  (milliseconds).
\<close>

type_synonym timestamp = int

type_synonym INTEGER = "64 word"

record User =
  user_id :: INTEGER
  user_name :: string
  user_createdAt :: timestamp
  user_updatedAt :: timestamp

record Todo =
  todo_id :: INTEGER
  todo_title :: string
  todo_completed :: bool
  todo_createdAt :: timestamp
  todo_updatedAt :: timestamp
  todo_userId :: INTEGER

text \<open>
  A relation field of a query result: left out of the object (no \<^verbatim>\<open>include\<close>), or
  present. An embedded owner is \<^verbatim>\<open>User | null\<close>; the foreign key rules \<^verbatim>\<open>null\<close> out.
\<close>

datatype 'a relation = Omitted | Embedded 'a

record TodoPayload =
  todo_row :: Todo
  user :: "User option relation"

record UserPayload =
  user_row :: User
  todos :: "Todo list relation"

text \<open>
  The database: both tables in insertion order, and for each the largest id ever handed
  out (\<^verbatim>\<open>AUTOINCREMENT\<close> keeps it in \<^verbatim>\<open>sqlite_sequence\<close>).
\<close>

record store =
  User_table :: "User list"
  Todo_table :: "Todo list"
  User_seq :: int
  Todo_seq :: int

text \<open>The ids of a table, as the numbers a request names them by.\<close>

definition User_ids :: "store \<Rightarrow> int set" where
  "User_ids s = (\<lambda>u. sint (user_id u)) ` set (User_table s)"

definition Todo_ids :: "store \<Rightarrow> int set" where
  "Todo_ids s = (\<lambda>r. sint (todo_id r)) ` set (Todo_table s)"

subsection \<open>Request bodies after validation\<close>

text \<open>
  A property of a request body that \<^verbatim>\<open>@IsOptional()\<close> guards reaches the service
  missing (\<^verbatim>\<open>undefined\<close>), as \<^verbatim>\<open>null\<close>, or with a value of its type: the decorator
  lets both \<^verbatim>\<open>undefined\<close> and \<^verbatim>\<open>null\<close> through.
\<close>

datatype 'a optional = Undefined | Null | Value 'a

text \<open>
  \<^verbatim>\<open>CreateTodoDto\<close>: \<^verbatim>\<open>title: string; completed?: boolean; userId: number\<close>, where
  \<^verbatim>\<open>userId\<close> is an integer (\<^verbatim>\<open>@IsInt()\<close>) of any size. The decorators of \<^verbatim>\<open>title\<close>
  and \<^verbatim>\<open>userId\<close> refuse \<^verbatim>\<open>null\<close>; \<^verbatim>\<open>completed\<close> is optional.
\<close>

record CreateTodoDto =
  title :: string
  completed :: "bool optional"
  userId :: int

text \<open>\<^verbatim>\<open>UpdateTodoDto extends PartialType(CreateTodoDto)\<close>: every field optional.\<close>

record UpdateTodoDto =
  upd_title :: "string optional"
  upd_completed :: "bool optional"
  upd_userId :: "int optional"

text \<open>\<^verbatim>\<open>CreateUserDto\<close>: \<^verbatim>\<open>name: string\<close>, and its \<^verbatim>\<open>PartialType\<close>.\<close>

record CreateUserDto =
  name :: string

record UpdateUserDto =
  upd_name :: "string optional"

subsection \<open>Exceptions\<close>

text \<open>
  The exceptions a request can end with. The message of an HTTP exception is a string
  or, for the validation pipe, a list of strings. An error raised by the storage client
  is not an HTTP exception; no service catches one, and the framework answers it with
  status 500.
\<close>

datatype message = Text string | Items "string list"

datatype exception =
    BadRequestException message
  | NotFoundException message
  | PrismaClientKnownRequestError string
  | PrismaClientUnknownRequestError
  | PrismaClientValidationError

fun getStatus :: "exception \<Rightarrow> nat" where
  "getStatus (BadRequestException _) = 400"
| "getStatus (NotFoundException _) = 404"
| "getStatus (PrismaClientKnownRequestError _) = 500"
| "getStatus PrismaClientUnknownRequestError = 500"
| "getStatus PrismaClientValidationError = 500"

subsection \<open>Values inside template strings\<close>

text \<open>
  \<^verbatim>\<open>`${n}`\<close> for an integer \<open>n\<close>: its decimal digits, with a leading minus sign when
  negative (integers below \<open>10^21\<close> in magnitude, which covers every id the storage
  client accepts); for \<^verbatim>\<open>null\<close> and \<^verbatim>\<open>undefined\<close>, their names.
\<close>

definition digit_char :: "nat \<Rightarrow> char" where
  \<comment> \<open>only ever applied to \<open>d < 10\<close>\<close>
  "digit_char d = ''0123456789'' ! d"

function digits_of :: "nat \<Rightarrow> string" where
  "digits_of n = (if n < 10 then [digit_char n] else digits_of (n div 10) @ [digit_char (n mod 10)])"
  by pat_completeness auto
termination
  by (relation "measure (\<lambda>n. n)") auto

declare digits_of.simps [simp del]

definition number_to_string :: "int \<Rightarrow> string" where
  "number_to_string i = (if i < 0 then CHR ''-'' # digits_of (nat (- i)) else digits_of (nat i))"

fun template :: "int optional \<Rightarrow> string" where
  "template Undefined = ''undefined''"
| "template Null = ''null''"
| "template (Value n) = number_to_string n"

section \<open>Storage layer\<close>

text \<open>
  The storage client (\<^verbatim>\<open>prisma.service.ts\<close>, the generated client and the schema
  file) is not among the sources. The definitions of this section give the calls the
  services make, on the tables the migration declares: primary keys,
  \<^verbatim>\<open>AUTOINCREMENT\<close>, \<^verbatim>\<open>DEFAULT false\<close>, the foreign key
  \<^verbatim>\<open>Todo_userId_fkey ... ON DELETE CASCADE\<close>, and the managed timestamps.
  A call returns a value or raises an error; a write also returns the new store. The
  client raises an error, and touches nothing, when an argument is \<^verbatim>\<open>null\<close> where a
  value is required or an integer does not fit the 64 bits of an \<^verbatim>\<open>INTEGER\<close>.
\<close>

definition fits_INTEGER :: "int \<Rightarrow> bool" where
  \<comment> \<open>Modelled from the spec: the range of the integers the storage client accepts, which
     is that of the engine's \<^verbatim>\<open>INTEGER\<close> columns (the client is missing from the sources).\<close>
  "fits_INTEGER i = (- (2 ^ 63) \<le> i \<and> i < 2 ^ 63)"

definition next_id :: "int \<Rightarrow> int list \<Rightarrow> int" where
  \<comment> \<open>Modelled from the spec: the id generator of the storage engine, missing from the
     sources. Ids are generated, unique and strictly increasing: one more than the
     largest id in the table or ever handed out.\<close>
  "next_id seq ids = fold max ids seq + 1"

definition User_by_id :: "store \<Rightarrow> int \<Rightarrow> User option" where
  \<comment> \<open>Modelled from the spec: the storage engine's lookup of a User row by primary key.\<close>
  "User_by_id s i = find (\<lambda>u. sint (user_id u) = i) (User_table s)"

definition Todo_by_id :: "store \<Rightarrow> int \<Rightarrow> Todo option" where
  \<comment> \<open>Modelled from the spec: the storage engine's lookup of a Todo row by primary key.\<close>
  "Todo_by_id s i = find (\<lambda>r. sint (todo_id r) = i) (Todo_table s)"

definition include_user :: "bool \<Rightarrow> store \<Rightarrow> Todo \<Rightarrow> TodoPayload" where
  \<comment> \<open>Modelled from the spec: the storage client's \<^verbatim>\<open>include: { user: true }\<close>, which
     embeds the owner's row; \<^verbatim>\<open>include: undefined\<close> leaves the field out.\<close>
  "include_user incl s r =
     \<lparr>todo_row = r,
      user = (if incl then Embedded (User_by_id s (sint (todo_userId r))) else Omitted)\<rparr>"

definition include_todos :: "bool \<Rightarrow> store \<Rightarrow> User \<Rightarrow> UserPayload" where
  \<comment> \<open>Modelled from the spec: the storage client's \<^verbatim>\<open>include: { todos: true }\<close>, which
     embeds the list of the user's Todo rows.\<close>
  "include_todos incl s u =
     \<lparr>user_row = u,
      todos = (if incl then Embedded (filter (\<lambda>t. todo_userId t = user_id u) (Todo_table s))
               else Omitted)\<rparr>"

definition prisma_user_findUnique ::
  "store \<Rightarrow> int optional \<Rightarrow> bool \<Rightarrow> exception + UserPayload option" where
  \<comment> \<open>Modelled from the spec: the storage client's \<^verbatim>\<open>user.findUnique({ where: { id }, include })\<close>:
     the row, or null; an error when \<^verbatim>\<open>id\<close> is no number or does not fit an \<^verbatim>\<open>INTEGER\<close>.\<close>
  "prisma_user_findUnique s wh incl =
     (case wh of
        Value i \<Rightarrow>
          (if fits_INTEGER i then Inr (map_option (include_todos incl s) (User_by_id s i))
           else Inl (PrismaClientKnownRequestError ''P2033''))
      | _ \<Rightarrow> Inl PrismaClientValidationError)"

definition prisma_todo_findUnique ::
  "store \<Rightarrow> int \<Rightarrow> bool \<Rightarrow> exception + TodoPayload option" where
  \<comment> \<open>Modelled from the spec: the storage client's \<^verbatim>\<open>todo.findUnique({ where: { id }, include })\<close>:
     the row, or null; an error when \<^verbatim>\<open>id\<close> does not fit an \<^verbatim>\<open>INTEGER\<close>.\<close>
  "prisma_todo_findUnique s i incl =
     (if fits_INTEGER i then Inr (map_option (include_user incl s) (Todo_by_id s i))
      else Inl (PrismaClientKnownRequestError ''P2033''))"

definition prisma_todo_findMany ::
  "store \<Rightarrow> int option \<Rightarrow> bool \<Rightarrow> exception + TodoPayload list" where
  \<comment> \<open>Modelled from the spec: the storage client's
     \<^verbatim>\<open>todo.findMany({ where, orderBy: { createdAt: 'desc' }, include })\<close>: the rows of the
     given owner (all rows when \<^verbatim>\<open>where\<close> is undefined), newest first. Rows created at
     the same instant keep their table order. An error when the owner's id does not fit
     an \<^verbatim>\<open>INTEGER\<close>.\<close>
  "prisma_todo_findMany s wh incl =
     (case wh of
        None \<Rightarrow>
          Inr (map (include_user incl s) (sort_key (\<lambda>r. - todo_createdAt r) (Todo_table s)))
      | Some uid \<Rightarrow>
          (if fits_INTEGER uid
           then Inr (map (include_user incl s)
                      (sort_key (\<lambda>r. - todo_createdAt r)
                         (filter (\<lambda>r. sint (todo_userId r) = uid) (Todo_table s))))
           else Inl (PrismaClientKnownRequestError ''P2033'')))"

definition prisma_user_findMany :: "store \<Rightarrow> bool \<Rightarrow> UserPayload list" where
  \<comment> \<open>Modelled from the spec: the storage client's
     \<^verbatim>\<open>user.findMany({ orderBy: { createdAt: 'desc' }, include })\<close>.\<close>
  "prisma_user_findMany s incl =
     map (include_todos incl s) (sort_key (\<lambda>u. - user_createdAt u) (User_table s))"

definition prisma_todo_create ::
  "CreateTodoDto \<Rightarrow> bool \<Rightarrow> timestamp \<Rightarrow> store \<Rightarrow> (exception + TodoPayload) \<times> store" where
  \<comment> \<open>Modelled from the spec: the storage client's \<^verbatim>\<open>todo.create({ data, include })\<close>. It
     inserts one row with a generated id, \<^verbatim>\<open>completed\<close> defaulting to false and both
     timestamps set by the system. It inserts nothing and raises an error when
     \<^verbatim>\<open>completed\<close> is null, when \<^verbatim>\<open>userId\<close> does not fit an \<^verbatim>\<open>INTEGER\<close>, when the
     foreign key finds no such owner, or when the table has run out of ids.\<close>
  "prisma_todo_create d incl now s =
     (if completed d = Null then (Inl PrismaClientValidationError, s)
      else if \<not> fits_INTEGER (userId d) then (Inl (PrismaClientKnownRequestError ''P2033''), s)
      else if User_by_id s (userId d) = None
        then (Inl (PrismaClientKnownRequestError ''P2003''), s)
      else if \<not> fits_INTEGER (next_id (Todo_seq s) (map (\<lambda>r. sint (todo_id r)) (Todo_table s)))
        then (Inl PrismaClientUnknownRequestError, s)
      else
        (let n = next_id (Todo_seq s) (map (\<lambda>r. sint (todo_id r)) (Todo_table s));
             r = \<lparr>todo_id = word_of_int n,
                  todo_title = title d,
                  todo_completed = (case completed d of Value b \<Rightarrow> b | _ \<Rightarrow> False),
                  todo_createdAt = now,
                  todo_updatedAt = now,
                  todo_userId = word_of_int (userId d)\<rparr>;
             s' = s\<lparr>Todo_table := Todo_table s @ [r], Todo_seq := n\<rparr>
         in (Inr (include_user incl s' r), s')))"

definition Todo_data :: "UpdateTodoDto \<Rightarrow> timestamp \<Rightarrow> Todo \<Rightarrow> Todo" where
  \<comment> \<open>Modelled from the spec: what the storage client's \<^verbatim>\<open>update\<close> writes into a Todo row:
     the fields present in \<^verbatim>\<open>data\<close>, and a refreshed \<^verbatim>\<open>updatedAt\<close>. With no field
     present the client writes nothing, and \<^verbatim>\<open>updatedAt\<close> stays as it is.\<close>
  "Todo_data d now r =
     (if upd_title d = Undefined \<and> upd_completed d = Undefined \<and> upd_userId d = Undefined then r
      else
        r\<lparr>todo_title := (case upd_title d of Value t \<Rightarrow> t | _ \<Rightarrow> todo_title r),
          todo_completed := (case upd_completed d of Value c \<Rightarrow> c | _ \<Rightarrow> todo_completed r),
          todo_userId := (case upd_userId d of Value u \<Rightarrow> word_of_int u | _ \<Rightarrow> todo_userId r),
          todo_updatedAt := now\<rparr>)"

definition prisma_todo_update ::
  "int \<Rightarrow> UpdateTodoDto \<Rightarrow> bool \<Rightarrow> timestamp \<Rightarrow> store \<Rightarrow> (exception + TodoPayload) \<times> store" where
  \<comment> \<open>Modelled from the spec: the storage client's \<^verbatim>\<open>todo.update({ where: { id }, data, include })\<close>.
     It writes nothing and raises an error when a field of \<^verbatim>\<open>data\<close> is null, when an id
     does not fit an \<^verbatim>\<open>INTEGER\<close>, when the row is missing or when the foreign key finds no
     such owner.\<close>
  "prisma_todo_update i d incl now s =
     (if upd_title d = Null \<or> upd_completed d = Null \<or> upd_userId d = Null
        then (Inl PrismaClientValidationError, s)
      else if \<not> fits_INTEGER i \<or> (case upd_userId d of Value uid \<Rightarrow> \<not> fits_INTEGER uid | _ \<Rightarrow> False)
        then (Inl (PrismaClientKnownRequestError ''P2033''), s)
      else
        (case Todo_by_id s i of
           None \<Rightarrow> (Inl (PrismaClientKnownRequestError ''P2025''), s)
         | Some r \<Rightarrow>
             (if (case upd_userId d of Value uid \<Rightarrow> User_by_id s uid = None | _ \<Rightarrow> False)
              then (Inl (PrismaClientKnownRequestError ''P2003''), s)
              else
                (let s' = s\<lparr>Todo_table :=
                             map (\<lambda>x. if sint (todo_id x) = i then Todo_data d now x else x)
                               (Todo_table s)\<rparr>
                 in (Inr (include_user incl s' (Todo_data d now r)), s')))))"

definition prisma_todo_delete ::
  "int \<Rightarrow> bool \<Rightarrow> store \<Rightarrow> (exception + TodoPayload) \<times> store" where
  \<comment> \<open>Modelled from the spec: the storage client's \<^verbatim>\<open>todo.delete({ where: { id }, include })\<close>.
     It returns the row as it was; it raises an error when the id does not fit an
     \<^verbatim>\<open>INTEGER\<close> or the row is missing.\<close>
  "prisma_todo_delete i incl s =
     (if \<not> fits_INTEGER i then (Inl (PrismaClientKnownRequestError ''P2033''), s)
      else
        (case Todo_by_id s i of
           None \<Rightarrow> (Inl (PrismaClientKnownRequestError ''P2025''), s)
         | Some r \<Rightarrow>
             (Inr (include_user incl s r),
              s\<lparr>Todo_table := filter (\<lambda>x. sint (todo_id x) \<noteq> i) (Todo_table s)\<rparr>)))"

definition prisma_user_create ::
  "CreateUserDto \<Rightarrow> bool \<Rightarrow> timestamp \<Rightarrow> store \<Rightarrow> (exception + UserPayload) \<times> store" where
  \<comment> \<open>Modelled from the spec: the storage client's \<^verbatim>\<open>user.create({ data, include })\<close>; an
     error when the table has run out of ids.\<close>
  "prisma_user_create d incl now s =
     (if \<not> fits_INTEGER (next_id (User_seq s) (map (\<lambda>u. sint (user_id u)) (User_table s)))
        then (Inl PrismaClientUnknownRequestError, s)
      else
        (let n = next_id (User_seq s) (map (\<lambda>u. sint (user_id u)) (User_table s));
             u = \<lparr>user_id = word_of_int n,
                  user_name = name d,
                  user_createdAt = now,
                  user_updatedAt = now\<rparr>;
             s' = s\<lparr>User_table := User_table s @ [u], User_seq := n\<rparr>
         in (Inr (include_todos incl s' u), s')))"

definition User_data :: "UpdateUserDto \<Rightarrow> timestamp \<Rightarrow> User \<Rightarrow> User" where
  \<comment> \<open>Modelled from the spec: what the storage client's \<^verbatim>\<open>update\<close> writes into a User row;
     nothing when \<^verbatim>\<open>data\<close> has no field.\<close>
  "User_data d now u =
     (case upd_name d of
        Value n \<Rightarrow> u\<lparr>user_name := n, user_updatedAt := now\<rparr>
      | _ \<Rightarrow> u)"

definition prisma_user_update ::
  "int \<Rightarrow> UpdateUserDto \<Rightarrow> bool \<Rightarrow> timestamp \<Rightarrow> store \<Rightarrow> (exception + UserPayload) \<times> store" where
  \<comment> \<open>Modelled from the spec: the storage client's \<^verbatim>\<open>user.update({ where: { id }, data, include })\<close>.\<close>
  "prisma_user_update i d incl now s =
     (if upd_name d = Null then (Inl PrismaClientValidationError, s)
      else if \<not> fits_INTEGER i then (Inl (PrismaClientKnownRequestError ''P2033''), s)
      else
        (case User_by_id s i of
           None \<Rightarrow> (Inl (PrismaClientKnownRequestError ''P2025''), s)
         | Some u \<Rightarrow>
             (let s' = s\<lparr>User_table :=
                          map (\<lambda>x. if sint (user_id x) = i then User_data d now x else x)
                            (User_table s)\<rparr>
              in (Inr (include_todos incl s' (User_data d now u)), s'))))"

definition prisma_user_delete ::
  "int \<Rightarrow> bool \<Rightarrow> store \<Rightarrow> (exception + UserPayload) \<times> store" where
  \<comment> \<open>Modelled from the spec: the storage client's \<^verbatim>\<open>user.delete({ where: { id }, include })\<close>
     on the migration's tables. \<^verbatim>\<open>ON DELETE CASCADE\<close> of \<^verbatim>\<open>Todo_userId_fkey\<close> makes
     the engine delete the user's Todo rows with the User row.\<close>
  "prisma_user_delete i incl s =
     (if \<not> fits_INTEGER i then (Inl (PrismaClientKnownRequestError ''P2033''), s)
      else
        (case User_by_id s i of
           None \<Rightarrow> (Inl (PrismaClientKnownRequestError ''P2025''), s)
         | Some u \<Rightarrow>
             (Inr (include_todos incl s u),
              s\<lparr>User_table := filter (\<lambda>x. sint (user_id x) \<noteq> i) (User_table s),
                Todo_table := filter (\<lambda>t. sint (todo_userId t) \<noteq> i) (Todo_table s)\<rparr>)))"

subsection \<open>Integrity constraints of the migration\<close>

definition User_pkey :: "store \<Rightarrow> bool" where
  "User_pkey s = distinct (map user_id (User_table s))"

definition Todo_pkey :: "store \<Rightarrow> bool" where
  "Todo_pkey s = distinct (map todo_id (Todo_table s))"

definition Todo_userId_fkey :: "store \<Rightarrow> bool" where
  "Todo_userId_fkey s =
     list_all (\<lambda>t. User_by_id s (sint (todo_userId t)) \<noteq> None) (Todo_table s)"

section \<open>TodoService\<close>

text \<open>
  Each \<^verbatim>\<open>await\<close> of a storage call either yields the call's value or lets its error
  pass to the caller: no method has a \<^verbatim>\<open>try\<close>.
\<close>

definition user_not_found :: "int optional \<Rightarrow> exception" where
  "user_not_found uid =
     BadRequestException (Text (''User with ID '' @ template uid @ '' not found''))"

definition todo_not_found :: "int \<Rightarrow> exception" where
  "todo_not_found i =
     NotFoundException (Text (''Todo with ID '' @ number_to_string i @ '' not found''))"

definition TodoService_create ::
  "CreateTodoDto \<Rightarrow> timestamp \<Rightarrow> store \<Rightarrow> (exception + TodoPayload) \<times> store" where
  "TodoService_create createTodoDto now s =
     (case prisma_user_findUnique s (Value (userId createTodoDto)) False of
        Inl e \<Rightarrow> (Inl e, s)
      | Inr None \<Rightarrow> (Inl (user_not_found (Value (userId createTodoDto))), s)
      | Inr (Some userExists) \<Rightarrow> prisma_todo_create createTodoDto True now s)"

text \<open>\<^verbatim>\<open>userId ? { userId } : undefined\<close>: a number is truthy unless it is zero.\<close>

fun truthy :: "int option \<Rightarrow> bool" where
  "truthy None = False"
| "truthy (Some n) = (n \<noteq> 0)"

definition TodoService_findAll ::
  "int option \<Rightarrow> bool \<Rightarrow> store \<Rightarrow> exception + TodoPayload list" where
  "TodoService_findAll userId' includeUser s =
     prisma_todo_findMany s (if truthy userId' then userId' else None) includeUser"

definition TodoService_findOne :: "int \<Rightarrow> bool \<Rightarrow> store \<Rightarrow> exception + TodoPayload" where
  "TodoService_findOne i includeUser s =
     (case prisma_todo_findUnique s i includeUser of
        Inl e \<Rightarrow> Inl e
      | Inr None \<Rightarrow> Inl (todo_not_found i)
      | Inr (Some todo) \<Rightarrow> Inr todo)"

definition TodoService_update ::
  "int \<Rightarrow> UpdateTodoDto \<Rightarrow> timestamp \<Rightarrow> store \<Rightarrow> (exception + TodoPayload) \<times> store" where
  "TodoService_update i updateTodoDto now s =
     (case TodoService_findOne i True s of
        Inl e \<Rightarrow> (Inl e, s)
      | Inr _ \<Rightarrow>
          (if upd_userId updateTodoDto \<noteq> Undefined
           then
             (case prisma_user_findUnique s (upd_userId updateTodoDto) False of
                Inl e \<Rightarrow> (Inl e, s)
              | Inr None \<Rightarrow> (Inl (user_not_found (upd_userId updateTodoDto)), s)
              | Inr (Some userExists) \<Rightarrow> prisma_todo_update i updateTodoDto True now s)
           else prisma_todo_update i updateTodoDto True now s))"

definition TodoService_remove :: "int \<Rightarrow> store \<Rightarrow> (exception + TodoPayload) \<times> store" where
  "TodoService_remove i s =
     (case TodoService_findOne i True s of
        Inl e \<Rightarrow> (Inl e, s)
      | Inr _ \<Rightarrow> prisma_todo_delete i False s)"

section \<open>UserService\<close>

definition UserService_create ::
  "CreateUserDto \<Rightarrow> timestamp \<Rightarrow> store \<Rightarrow> (exception + UserPayload) \<times> store" where
  "UserService_create createUserDto now s = prisma_user_create createUserDto False now s"

definition UserService_findAll :: "bool \<Rightarrow> store \<Rightarrow> UserPayload list" where
  "UserService_findAll includeTodos s = prisma_user_findMany s includeTodos"

definition UserService_findOne :: "int \<Rightarrow> bool \<Rightarrow> store \<Rightarrow> exception + UserPayload" where
  "UserService_findOne i includeTodos s =
     (case prisma_user_findUnique s (Value i) includeTodos of
        Inl e \<Rightarrow> Inl e
      | Inr None \<Rightarrow>
          Inl (NotFoundException (Text (''User with ID '' @ number_to_string i @ '' not found'')))
      | Inr (Some user') \<Rightarrow> Inr user')"

definition UserService_update ::
  "int \<Rightarrow> UpdateUserDto \<Rightarrow> timestamp \<Rightarrow> store \<Rightarrow> (exception + UserPayload) \<times> store" where
  "UserService_update i updateUserDto now s =
     (case UserService_findOne i False s of
        Inl e \<Rightarrow> (Inl e, s)
      | Inr _ \<Rightarrow> prisma_user_update i updateUserDto False now s)"

definition UserService_remove :: "int \<Rightarrow> store \<Rightarrow> (exception + UserPayload) \<times> store" where
  "UserService_remove i s =
     (case UserService_findOne i False s of
        Inl e \<Rightarrow> (Inl e, s)
      | Inr _ \<Rightarrow> prisma_user_delete i False s)"

section \<open>Controllers\<close>


definition TodoController_findAll ::
  "int option \<Rightarrow> bool option \<Rightarrow> store \<Rightarrow> exception + TodoPayload list" where
  "TodoController_findAll userId' includeUser s =
     TodoService_findAll userId' (includeUser \<noteq> Some False) s"

definition TodoController_findOne ::
  "int \<Rightarrow> bool option \<Rightarrow> store \<Rightarrow> exception + TodoPayload" where
  "TodoController_findOne i includeUser s = TodoService_findOne i (includeUser \<noteq> Some False) s"



fun or_false :: "bool option \<Rightarrow> bool" where
  "or_false None = False"
| "or_false (Some b) = b"

definition UserController_findAll :: "bool option \<Rightarrow> store \<Rightarrow> UserPayload list" where
  "UserController_findAll includeTodos s = UserService_findAll (or_false includeTodos) s"

definition UserController_findOne ::
  "int \<Rightarrow> bool option \<Rightarrow> store \<Rightarrow> exception + UserPayload" where
  "UserController_findOne i includeTodos s = UserService_findOne i (or_false includeTodos) s"

definition UserController_remove :: "int \<Rightarrow> store \<Rightarrow> (exception + UserPayload) \<times> store" where
  "UserController_remove i s = UserService_remove i s"

section \<open>Request validation\<close>

text \<open>
  \<^verbatim>\<open>bootstrap\<close> installs one global \<^verbatim>\<open>ValidationPipe\<close>; every \<^verbatim>\<open>@Body()\<close> parameter
  goes through it before the controller handler is called. The pipe belongs to the
  framework; it is given here the way the comments of \<^verbatim>\<open>main.ts\<close> and the repository's
  validation guide describe its options.
\<close>

datatype json =
    JNull
  | JBool bool
  | JNumber rat
  | JString string
  | JArray "json list"
  | JObject "(string \<times> json) list"

type_synonym body = "(string \<times> json) list"

record ValidationPipeOptions =
  whitelist :: bool
  transform :: bool
  forbidNonWhitelisted :: bool

definition bootstrap_ValidationPipe :: ValidationPipeOptions where
  "bootstrap_ValidationPipe = \<lparr>whitelist = True, transform = True, forbidNonWhitelisted = True\<rparr>"

datatype decorator = IsString | IsNotEmpty | IsBoolean | IsOptional | IsInt | IsPositive

text \<open>
  The validation decorators of each DTO class, property by property. Decorators take
  effect bottom-up, so each list reads from the property upwards.
\<close>

type_synonym metadata = "(string \<times> decorator list) list"

definition CreateTodoDto_metadata :: metadata where
  "CreateTodoDto_metadata =
     [(''title'', [IsNotEmpty, IsString]),
      (''completed'', [IsOptional, IsBoolean]),
      (''userId'', [IsPositive, IsInt])]"

definition CreateUserDto_metadata :: metadata where
  "CreateUserDto_metadata = [(''name'', [IsNotEmpty, IsString])]"

definition PartialType :: "metadata \<Rightarrow> metadata" where
  \<comment> \<open>every property of the parent class, with its decorators, made optional\<close>
  "PartialType md = map (\<lambda>(p, ds). (p, IsOptional # ds)) md"

definition UpdateTodoDto_metadata :: metadata where
  "UpdateTodoDto_metadata = PartialType CreateTodoDto_metadata"

definition UpdateUserDto_metadata :: metadata where
  "UpdateUserDto_metadata = PartialType CreateUserDto_metadata"

fun satisfies :: "decorator \<Rightarrow> json option \<Rightarrow> bool" where
  "satisfies IsString v = (case v of Some (JString _) \<Rightarrow> True | _ \<Rightarrow> False)"
| "satisfies IsNotEmpty v = (v \<noteq> None \<and> v \<noteq> Some JNull \<and> v \<noteq> Some (JString []))"
| "satisfies IsBoolean v = (case v of Some (JBool _) \<Rightarrow> True | _ \<Rightarrow> False)"
| "satisfies IsOptional v = True"
| "satisfies IsInt v = (case v of Some (JNumber r) \<Rightarrow> of_int \<lfloor>r\<rfloor> = r | _ \<Rightarrow> False)"
| "satisfies IsPositive v = (case v of Some (JNumber r) \<Rightarrow> 0 < r | _ \<Rightarrow> False)"

fun default_message :: "decorator \<Rightarrow> string \<Rightarrow> string" where
  "default_message IsString p = p @ '' must be a string''"
| "default_message IsNotEmpty p = p @ '' should not be empty''"
| "default_message IsBoolean p = p @ '' must be a boolean value''"
| "default_message IsOptional p = []"
| "default_message IsInt p = p @ '' must be an integer number''"
| "default_message IsPositive p = p @ '' must be a positive number''"

definition property_errors :: "body \<Rightarrow> string \<times> decorator list \<Rightarrow> string list" where
  "property_errors b pd =
     (let v = map_of b (fst pd) in
      if IsOptional \<in> set (snd pd) \<and> (v = None \<or> v = Some JNull) then []
      else map (\<lambda>d. default_message d (fst pd)) (filter (\<lambda>d. \<not> satisfies d v) (snd pd)))"

definition whitelist_errors :: "ValidationPipeOptions \<Rightarrow> metadata \<Rightarrow> body \<Rightarrow> string list" where
  "whitelist_errors opts md b =
     (if whitelist opts \<and> forbidNonWhitelisted opts
      then map (\<lambda>k. ''property '' @ k @ '' should not exist'')
             (filter (\<lambda>k. k \<notin> set (map fst md)) (map fst b))
      else [])"

definition ValidationPipe_transform ::
  "ValidationPipeOptions \<Rightarrow> metadata \<Rightarrow> body \<Rightarrow> exception + body" where
  \<comment> \<open>Modelled from the spec: the framework's pipe, missing from the sources: unknown
     properties are rejected, not dropped, and every failed check gives one message.\<close>
  "ValidationPipe_transform opts md b =
     (let errors = whitelist_errors opts md b @ concat (map (property_errors b) md) in
      if errors = []
      then Inr (if whitelist opts then filter (\<lambda>kv. fst kv \<in> set (map fst md)) b else b)
      else Inl (BadRequestException (Items errors)))"

text \<open>
  A route with a \<^verbatim>\<open>@Body()\<close> parameter: the pipe runs first, and the controller handler
  (with the service behind it) runs on the validated body only.
\<close>

definition Body ::
  "metadata \<Rightarrow> (body \<Rightarrow> store \<Rightarrow> (exception + 'r) \<times> store) \<Rightarrow> body \<Rightarrow> store
     \<Rightarrow> (exception + 'r) \<times> store" where
  "Body md handler b s =
     (case ValidationPipe_transform bootstrap_ValidationPipe md b of
        Inl e \<Rightarrow> (Inl e, s)
      | Inr dto \<Rightarrow> handler dto s)"

section \<open>The scenario of the specification\<close>

text \<open>
  The store after \<^verbatim>\<open>POST /users {"name":"Ann"}\<close> at time 100 and
  \<^verbatim>\<open>POST /todos {"title":"Buy milk","userId":1}\<close> at time 200 on an empty database,
  used to run the operations on concrete data.
\<close>

definition Ann :: User where
  "Ann = \<lparr>user_id = 1, user_name = ''Ann'', user_createdAt = 100, user_updatedAt = 100\<rparr>"

definition Buy_milk :: Todo where
  "Buy_milk = \<lparr>todo_id = 1, todo_title = ''Buy milk'', todo_completed = False,
                todo_createdAt = 200, todo_updatedAt = 200, todo_userId = 1\<rparr>"

definition empty_store :: store where
  "empty_store = \<lparr>User_table = [], Todo_table = [], User_seq = 0, Todo_seq = 0\<rparr>"

definition scenario_store :: store where
  "scenario_store = \<lparr>User_table = [Ann], Todo_table = [Buy_milk], User_seq = 1, Todo_seq = 1\<rparr>"

text \<open>The scenario store after the Todo table has handed out its last id.\<close>

definition exhausted_store :: store where
  "exhausted_store = scenario_store\<lparr>Todo_seq := 2 ^ 63 - 1\<rparr>"

section \<open>Facts about the storage layer and the lookups\<close>

lemma fits_sint: "fits_INTEGER (sint (w :: INTEGER))"
  using sint_ge [of w] sint_lt [of w] by (simp add: fits_INTEGER_def)

lemma sint_word_of_int_fits:
  "fits_INTEGER i \<Longrightarrow> sint (word_of_int i :: INTEGER) = i"
  by (simp add: fits_INTEGER_def sint_sbintrunc' signed_take_bit_int_eq_self)

lemma fold_max_ge: "(x::int) \<le> fold max xs x"
  by (induction xs arbitrary: x) (auto intro: order_trans [OF max.cobounded2])

lemma fold_max_mem: "(i::int) \<in> set xs \<Longrightarrow> i \<le> fold max xs x"
proof (induction xs arbitrary: x)
  case Nil
  then show ?case by simp
next
  case (Cons a xs)
  show ?case
  proof (cases "i = a")
    case True
    have "a \<le> max a x" by simp
    also have "\<dots> \<le> fold max xs (max a x)" by (rule fold_max_ge)
    finally show ?thesis using True by simp
  next
    case False
    with Cons.prems have "i \<in> set xs" by simp
    then show ?thesis using Cons.IH by simp
  qed
qed

lemma next_id_fresh: "next_id seq ids \<notin> set ids"
  using fold_max_mem [of "next_id seq ids" ids seq] by (auto simp: next_id_def)

lemma next_id_above_seq: "seq < next_id seq ids"
  using fold_max_ge [of seq ids] by (simp add: next_id_def)

lemma User_by_id_None: "(User_by_id s i = None) = (i \<notin> User_ids s)"
  by (auto simp: User_by_id_def User_ids_def find_None_iff)

lemma User_by_id_Some:
  "User_by_id s i = Some u \<Longrightarrow> u \<in> set (User_table s) \<and> sint (user_id u) = i"
  by (auto simp: User_by_id_def find_Some_iff)

lemma User_by_id_fits: "User_by_id s i = Some u \<Longrightarrow> fits_INTEGER i"
  using User_by_id_Some [of s i u] fits_sint [of "user_id u"] by auto

lemma Todo_by_id_None: "(Todo_by_id s i = None) = (i \<notin> Todo_ids s)"
  by (auto simp: Todo_by_id_def Todo_ids_def find_None_iff)

lemma Todo_by_id_Some:
  "Todo_by_id s i = Some r \<Longrightarrow> r \<in> set (Todo_table s) \<and> sint (todo_id r) = i"
  by (auto simp: Todo_by_id_def find_Some_iff)

lemma Todo_by_id_fits: "Todo_by_id s i = Some r \<Longrightarrow> fits_INTEGER i"
  using Todo_by_id_Some [of s i r] fits_sint [of "todo_id r"] by auto

lemma User_by_id_Todo_table [simp]:
  "User_by_id (s\<lparr>Todo_table := ts\<rparr>) i = User_by_id s i"
  by (simp add: User_by_id_def)

lemma User_by_id_Todo_seq [simp]:
  "User_by_id (s\<lparr>Todo_table := ts, Todo_seq := q\<rparr>) i = User_by_id s i"
  by (simp add: User_by_id_def)

lemma findOne_out_of_range:
  "\<not> fits_INTEGER i \<Longrightarrow>
     TodoService_findOne i incl s = Inl (PrismaClientKnownRequestError ''P2033'')"
  by (simp add: TodoService_findOne_def prisma_todo_findUnique_def)

lemma findOne_missing:
  "fits_INTEGER i \<Longrightarrow> i \<notin> Todo_ids s \<Longrightarrow> TodoService_findOne i incl s = Inl (todo_not_found i)"
  using Todo_by_id_None [of s i]
  by (simp add: TodoService_findOne_def prisma_todo_findUnique_def)

lemma findOne_present:
  "Todo_by_id s i = Some r \<Longrightarrow> TodoService_findOne i incl s = Inr (include_user incl s r)"
  using Todo_by_id_fits [of s i r]
  by (simp add: TodoService_findOne_def prisma_todo_findUnique_def)


lemma create_out_of_range:
  "\<not> fits_INTEGER (userId d) \<Longrightarrow>
     TodoService_create d now s = (Inl (PrismaClientKnownRequestError ''P2033''), s)"
  by (simp add: TodoService_create_def prisma_user_findUnique_def)

lemma create_missing_user:
  assumes "fits_INTEGER (userId d)" and "userId d \<notin> User_ids s"
  shows "TodoService_create d now s = (Inl (user_not_found (Value (userId d))), s)"
  using assms User_by_id_None [of s "userId d"]
  by (simp add: TodoService_create_def prisma_user_findUnique_def)

lemma create_null_completed:
  assumes "User_by_id s (userId d) = Some u" and "completed d = Null"
  shows "TodoService_create d now s = (Inl PrismaClientValidationError, s)"
  using assms User_by_id_fits [OF assms(1)]
  by (simp add: TodoService_create_def prisma_user_findUnique_def prisma_todo_create_def)

lemma create_exhausted:
  assumes "User_by_id s (userId d) = Some u" and "completed d \<noteq> Null"
    and "\<not> fits_INTEGER (next_id (Todo_seq s) (map (\<lambda>r. sint (todo_id r)) (Todo_table s)))"
  shows "TodoService_create d now s = (Inl PrismaClientUnknownRequestError, s)"
  using assms User_by_id_fits [OF assms(1)]
  by (simp add: TodoService_create_def prisma_user_findUnique_def prisma_todo_create_def)

lemma create_existing_user:
  assumes "User_by_id s (userId d) = Some u" and "completed d \<noteq> Null"
    and "fits_INTEGER (next_id (Todo_seq s) (map (\<lambda>r. sint (todo_id r)) (Todo_table s)))"
  shows "TodoService_create d now s =
     (let n = next_id (Todo_seq s) (map (\<lambda>r. sint (todo_id r)) (Todo_table s));
          r = \<lparr>todo_id = word_of_int n,
               todo_title = title d,
               todo_completed = (case completed d of Value b \<Rightarrow> b | _ \<Rightarrow> False),
               todo_createdAt = now, todo_updatedAt = now, todo_userId = word_of_int (userId d)\<rparr>
      in (Inr \<lparr>todo_row = r, user = Embedded (Some u)\<rparr>,
          s\<lparr>Todo_table := Todo_table s @ [r], Todo_seq := n\<rparr>))"
  using assms User_by_id_fits [OF assms(1)]
  by (simp add: TodoService_create_def prisma_user_findUnique_def prisma_todo_create_def
      include_user_def Let_def sint_word_of_int_fits)

lemma create_success:
  assumes "TodoService_create d now s = (Inr pl, s')"
  shows "\<exists>u. User_by_id s (userId d) = Some u \<and> completed d \<noteq> Null
           \<and> fits_INTEGER (next_id (Todo_seq s) (map (\<lambda>r. sint (todo_id r)) (Todo_table s)))"
proof (cases "fits_INTEGER (userId d)")
  case False
  then show ?thesis using assms by (simp add: create_out_of_range)
next
  case True
  show ?thesis
  proof (cases "User_by_id s (userId d)")
    case None
    then have "userId d \<notin> User_ids s" by (simp add: User_by_id_None)
    then show ?thesis using assms True by (simp add: create_missing_user)
  next
    case (Some u)
    then show ?thesis using assms
      by (cases "completed d = Null";
          cases "fits_INTEGER (next_id (Todo_seq s) (map (\<lambda>r. sint (todo_id r)) (Todo_table s)))")
        (simp_all add: create_null_completed create_exhausted)
  qed
qed

lemma number_to_string_999: "number_to_string 999 = ''999''"
  by (simp add: number_to_string_def digits_of.simps digit_char_def)

lemma number_to_string_7: "number_to_string 7 = ''7''"
  by (simp add: number_to_string_def digits_of.simps digit_char_def)

lemma number_to_string_1: "number_to_string 1 = ''1''"
  by (simp add: number_to_string_def digits_of.simps digit_char_def)

lemma scenario_lookups:
  "Todo_by_id scenario_store 1 = Some Buy_milk"
  "User_by_id scenario_store 1 = Some Ann"
  "User_ids scenario_store = {1}"
  "Todo_ids scenario_store = {1}"
  "Todo_userId_fkey scenario_store"
  "Todo_pkey scenario_store"
  by (simp_all add: scenario_store_def Todo_by_id_def User_by_id_def Ann_def Buy_milk_def
      Todo_userId_fkey_def Todo_pkey_def User_ids_def Todo_ids_def)

lemma fits_small:
  "fits_INTEGER 1" "fits_INTEGER 2" "fits_INTEGER 7" "fits_INTEGER 999" "\<not> fits_INTEGER (2 ^ 63)"
  by (simp_all add: fits_INTEGER_def)

lemma scenario_next_id:
  "next_id (Todo_seq scenario_store) (map (\<lambda>r. sint (todo_id r)) (Todo_table scenario_store)) = 2"
  by (simp add: scenario_store_def Buy_milk_def next_id_def)

section \<open>Creating a Todo\<close>

text \<open>
  Claim C1 says that \<^verbatim>\<open>create\<close> fails with a client error whenever no User has the
  id \<open>userId\<close>, and inserts otherwise. Three requests that pass validation end
  otherwise, each with an error of the storage client (status 500) that \<^verbatim>\<open>create\<close> does
  not catch: \<open>userId = 2^63\<close>, which no User has and which does not fit an
  \<^verbatim>\<open>INTEGER\<close>; \<^verbatim>\<open>completed: null\<close> with an existing owner; and an existing owner when
  the Todo table has handed out its last id.
\<close>

theorem create_fails_in_the_storage_client:
  "2 ^ 63 \<notin> User_ids scenario_store
   \<and> TodoService_create \<lparr>title = ''X'', completed = Undefined, userId = 2 ^ 63\<rparr> 300 scenario_store
       = (Inl (PrismaClientKnownRequestError ''P2033''), scenario_store)
   \<and> getStatus (PrismaClientKnownRequestError ''P2033'') = 500
   \<and> 1 \<in> User_ids scenario_store
   \<and> TodoService_create \<lparr>title = ''X'', completed = Null, userId = 1\<rparr> 300 scenario_store
       = (Inl PrismaClientValidationError, scenario_store)
   \<and> 1 \<in> User_ids exhausted_store
   \<and> TodoService_create \<lparr>title = ''X'', completed = Undefined, userId = 1\<rparr> 300 exhausted_store
       = (Inl PrismaClientUnknownRequestError, exhausted_store)"
proof -
  have e: "User_by_id exhausted_store 1 = Some Ann"
    by (simp add: exhausted_store_def scenario_store_def User_by_id_def Ann_def)
  have n: "\<not> fits_INTEGER (next_id (Todo_seq exhausted_store)
      (map (\<lambda>r. sint (todo_id r)) (Todo_table exhausted_store)))"
    by (simp add: exhausted_store_def scenario_store_def Buy_milk_def next_id_def fits_INTEGER_def)
  have "TodoService_create \<lparr>title = ''X'', completed = Undefined, userId = 1\<rparr> 300 exhausted_store
       = (Inl PrismaClientUnknownRequestError, exhausted_store)"
    using create_exhausted [of exhausted_store "\<lparr>title = ''X'', completed = Undefined, userId = 1\<rparr>" Ann 300]
      e n by simp
  moreover have "1 \<in> User_ids exhausted_store"
    using e User_by_id_None [of exhausted_store 1] by simp
  moreover have "TodoService_create \<lparr>title = ''X'', completed = Null, userId = 1\<rparr> 300 scenario_store
       = (Inl PrismaClientValidationError, scenario_store)"
    using create_null_completed [of scenario_store "\<lparr>title = ''X'', completed = Null, userId = 1\<rparr>" Ann 300]
    by (simp add: scenario_lookups)
  moreover have "TodoService_create \<lparr>title = ''X'', completed = Undefined, userId = 2 ^ 63\<rparr> 300 scenario_store
       = (Inl (PrismaClientKnownRequestError ''P2033''), scenario_store)"
    using create_out_of_range [of "\<lparr>title = ''X'', completed = Undefined, userId = 2 ^ 63\<rparr>" 300 scenario_store]
    by (simp add: fits_INTEGER_def)
  ultimately show ?thesis by (simp add: scenario_lookups)
qed

text \<open>
  Claim C1, amended. \<^verbatim>\<open>TodoService.create\<close> with a \<open>userId\<close> that fits an \<^verbatim>\<open>INTEGER\<close>:
  when no User row has that id, the call fails with a \<^verbatim>\<open>BadRequestException\<close> whose
  message names the id, and the store is as before. When a User row has it,
  \<^verbatim>\<open>completed\<close> is not null and the table has an id left, it appends one Todo row with
  the given title, \<open>completed\<close> false unless given, the given owner, both timestamps at
  the current time and an id no row had, and returns that row with its owner's User row
  embedded.
\<close>

theorem create_checks_owner_then_inserts:
  assumes "fits_INTEGER (userId d)"
  shows
  "(userId d \<notin> User_ids s \<longrightarrow>
      TodoService_create d now s =
        (Inl (BadRequestException
               (Text (''User with ID '' @ number_to_string (userId d) @ '' not found''))), s))
   \<and> (userId d \<in> User_ids s \<and> completed d \<noteq> Null
        \<and> fits_INTEGER (next_id (Todo_seq s) (map (\<lambda>r. sint (todo_id r)) (Todo_table s))) \<longrightarrow>
      (\<exists>r u. TodoService_create d now s =
                (Inr \<lparr>todo_row = r, user = Embedded (Some u)\<rparr>,
                 s\<lparr>Todo_table := Todo_table s @ [r], Todo_seq := sint (todo_id r)\<rparr>)
            \<and> todo_title r = title d
            \<and> todo_completed r = (case completed d of Value b \<Rightarrow> b | _ \<Rightarrow> False)
            \<and> sint (todo_userId r) = userId d
            \<and> todo_createdAt r = now \<and> todo_updatedAt r = now
            \<and> sint (todo_id r) \<notin> Todo_ids s
            \<and> u \<in> set (User_table s) \<and> sint (user_id u) = userId d))"
proof (intro conjI impI)
  assume "userId d \<notin> User_ids s"
  then show "TodoService_create d now s =
        (Inl (BadRequestException
               (Text (''User with ID '' @ number_to_string (userId d) @ '' not found''))), s)"
    using assms by (simp add: create_missing_user user_not_found_def)
next
  assume a: "userId d \<in> User_ids s \<and> completed d \<noteq> Null
        \<and> fits_INTEGER (next_id (Todo_seq s) (map (\<lambda>r. sint (todo_id r)) (Todo_table s)))"
  then obtain u where u: "User_by_id s (userId d) = Some u"
    using User_by_id_None [of s "userId d"] by auto
  note mem = User_by_id_Some [OF u]
  define n where "n = next_id (Todo_seq s) (map (\<lambda>r. sint (todo_id r)) (Todo_table s))"
  have fn: "fits_INTEGER n" using a by (simp add: n_def)
  have fresh: "n \<notin> Todo_ids s"
    using next_id_fresh [of "Todo_seq s" "map (\<lambda>r. sint (todo_id r)) (Todo_table s)"]
    by (simp add: n_def Todo_ids_def)
  show "\<exists>r u. TodoService_create d now s =
                (Inr \<lparr>todo_row = r, user = Embedded (Some u)\<rparr>,
                 s\<lparr>Todo_table := Todo_table s @ [r], Todo_seq := sint (todo_id r)\<rparr>)
            \<and> todo_title r = title d
            \<and> todo_completed r = (case completed d of Value b \<Rightarrow> b | _ \<Rightarrow> False)
            \<and> sint (todo_userId r) = userId d
            \<and> todo_createdAt r = now \<and> todo_updatedAt r = now
            \<and> sint (todo_id r) \<notin> Todo_ids s
            \<and> u \<in> set (User_table s) \<and> sint (user_id u) = userId d"
    using create_existing_user [OF u, of now] a mem fresh fn assms
    by (simp add: Let_def sint_word_of_int_fits flip: n_def)
qed

theorem create_checks_owner_then_inserts_witness:
  "fits_INTEGER 999 \<and> fits_INTEGER 1
   \<and> TodoService_create \<lparr>title = ''X'', completed = Undefined, userId = 999\<rparr> 300 scenario_store =
     (Inl (BadRequestException (Text ''User with ID 999 not found'')), scenario_store)
   \<and> (\<exists>r u. TodoService_create \<lparr>title = ''X'', completed = Undefined, userId = 1\<rparr> 300 scenario_store =
                (Inr \<lparr>todo_row = r, user = Embedded (Some u)\<rparr>,
                 scenario_store\<lparr>Todo_table := Todo_table scenario_store @ [r],
                   Todo_seq := sint (todo_id r)\<rparr>)
          \<and> todo_title r = ''X'' \<and> todo_completed r = False \<and> sint (todo_userId r) = 1 \<and> u = Ann)"
proof -
  have h1: "fits_INTEGER (userId \<lparr>title = ''X'', completed = Undefined, userId = 999\<rparr>)"
    and h2: "fits_INTEGER (userId \<lparr>title = ''X'', completed = Undefined, userId = 1\<rparr>)"
    by (simp_all add: fits_small)
  show ?thesis
    using create_checks_owner_then_inserts [OF h1, of scenario_store 300] create_checks_owner_then_inserts [OF h2, of scenario_store 300]
    by (auto simp: scenario_lookups scenario_next_id fits_small number_to_string_999)
      (auto simp: scenario_store_def Ann_def)
qed

section \<open>Facts about update and remove\<close>

lemma update_out_of_range:
  "\<not> fits_INTEGER i \<Longrightarrow>
     TodoService_update i p now s = (Inl (PrismaClientKnownRequestError ''P2033''), s)"
  by (simp add: TodoService_update_def findOne_out_of_range)

lemma remove_out_of_range:
  "\<not> fits_INTEGER i \<Longrightarrow>
     TodoService_remove i s = (Inl (PrismaClientKnownRequestError ''P2033''), s)"
  by (simp add: TodoService_remove_def findOne_out_of_range)

lemma update_missing:
  "fits_INTEGER i \<Longrightarrow> i \<notin> Todo_ids s \<Longrightarrow>
     TodoService_update i p now s = (Inl (todo_not_found i), s)"
  by (simp add: TodoService_update_def findOne_missing)

lemma remove_missing:
  "fits_INTEGER i \<Longrightarrow> i \<notin> Todo_ids s \<Longrightarrow> TodoService_remove i s = (Inl (todo_not_found i), s)"
  by (simp add: TodoService_remove_def findOne_missing)

lemma update_missing_user:
  assumes "Todo_by_id s i = Some r" and "upd_userId p = Value uid"
    and "fits_INTEGER uid" and "uid \<notin> User_ids s"
  shows "TodoService_update i p now s = (Inl (user_not_found (Value uid)), s)"
  using assms User_by_id_None [of s uid]
  by (simp add: TodoService_update_def findOne_present prisma_user_findUnique_def)

lemma update_big_user:
  assumes "Todo_by_id s i = Some r" and "upd_userId p = Value uid" and "\<not> fits_INTEGER uid"
  shows "TodoService_update i p now s = (Inl (PrismaClientKnownRequestError ''P2033''), s)"
  using assms
  by (simp add: TodoService_update_def findOne_present prisma_user_findUnique_def)

lemma update_null_user:
  assumes "Todo_by_id s i = Some r" and "upd_userId p = Null"
  shows "TodoService_update i p now s = (Inl PrismaClientValidationError, s)"
  using assms
  by (simp add: TodoService_update_def findOne_present prisma_user_findUnique_def)

lemma update_null_field:
  assumes "Todo_by_id s i = Some r" and "upd_title p = Null \<or> upd_completed p = Null"
    and "\<And>uid. upd_userId p = Value uid \<Longrightarrow> fits_INTEGER uid \<and> uid \<in> User_ids s"
  shows "TodoService_update i p now s = (Inl PrismaClientValidationError, s)"
proof (cases "upd_userId p")
  case Undefined
  then show ?thesis using assms(1,2)
    by (simp add: TodoService_update_def findOne_present prisma_todo_update_def)
next
  case Null
  then show ?thesis using assms(1) by (simp add: update_null_user)
next
  case (Value uid)
  with assms(3) have "fits_INTEGER uid" "User_by_id s uid \<noteq> None"
    by (simp_all add: User_by_id_None)
  then show ?thesis using assms(1,2) Value
    by (auto simp: TodoService_update_def findOne_present prisma_user_findUnique_def
        prisma_todo_update_def)
qed

lemma update_applies:
  assumes "Todo_by_id s i = Some r"
    and "upd_title p \<noteq> Null" and "upd_completed p \<noteq> Null" and "upd_userId p \<noteq> Null"
    and "\<And>uid. upd_userId p = Value uid \<Longrightarrow> fits_INTEGER uid \<and> uid \<in> User_ids s"
  shows "TodoService_update i p now s =
     (Inr \<lparr>todo_row = Todo_data p now r,
           user = Embedded (User_by_id s (sint (todo_userId (Todo_data p now r))))\<rparr>,
      s\<lparr>Todo_table :=
          map (\<lambda>x. if sint (todo_id x) = i then Todo_data p now x else x) (Todo_table s)\<rparr>)"
proof (cases "upd_userId p")
  case Undefined
  then show ?thesis using assms(1-4) Todo_by_id_fits [OF assms(1)]
    by (simp add: TodoService_update_def findOne_present prisma_todo_update_def include_user_def)
next
  case Null
  then show ?thesis using assms(4) by simp
next
  case (Value uid)
  with assms(5) have "fits_INTEGER uid" "User_by_id s uid \<noteq> None"
    by (simp_all add: User_by_id_None)
  then show ?thesis using assms(1-4) Value Todo_by_id_fits [OF assms(1)]
    by (auto simp: TodoService_update_def findOne_present prisma_todo_update_def include_user_def
        prisma_user_findUnique_def)
qed

lemma fkey_owner:
  assumes "Todo_userId_fkey s" and "r \<in> set (Todo_table s)"
  shows "\<exists>u. User_by_id s (sint (todo_userId r)) = Some u"
  using assms by (auto simp: Todo_userId_fkey_def list_all_iff)

lemma Todo_data_empty:
  "upd_title p = Undefined \<Longrightarrow> upd_completed p = Undefined \<Longrightarrow> upd_userId p = Undefined \<Longrightarrow>
     Todo_data p now r = r"
  by (simp add: Todo_data_def)

lemma Todo_data_fields:
  assumes "upd_title p \<noteq> Null" and "upd_completed p \<noteq> Null" and "upd_userId p \<noteq> Null"
  shows "Todo_data p now r =
     \<lparr>todo_id = todo_id r,
      todo_title = (case upd_title p of Value t \<Rightarrow> t | _ \<Rightarrow> todo_title r),
      todo_completed = (case upd_completed p of Value c \<Rightarrow> c | _ \<Rightarrow> todo_completed r),
      todo_createdAt = todo_createdAt r,
      todo_updatedAt =
        (if upd_title p = Undefined \<and> upd_completed p = Undefined \<and> upd_userId p = Undefined
         then todo_updatedAt r else now),
      todo_userId = (case upd_userId p of Value w \<Rightarrow> word_of_int w | _ \<Rightarrow> todo_userId r)\<rparr>"
  by (simp add: Todo_data_def)

lemma Todo_data_owner:
  "sint (todo_userId (Todo_data p now r)) =
     (case upd_userId p of Value w \<Rightarrow> sint (word_of_int w :: INTEGER) | _ \<Rightarrow> sint (todo_userId r))"
  by (cases "upd_userId p") (simp_all add: Todo_data_def)

lemma updated_owner:
  assumes "Todo_by_id s i = Some r" and "Todo_userId_fkey s"
    and "\<And>uid. upd_userId p = Value uid \<Longrightarrow> fits_INTEGER uid \<and> uid \<in> User_ids s"
  shows "\<exists>u. User_by_id s (sint (todo_userId (Todo_data p now r))) = Some u"
proof (cases "upd_userId p")
  case (Value uid)
  with assms(3) have "fits_INTEGER uid" "User_by_id s uid \<noteq> None"
    by (simp_all add: User_by_id_None)
  with Value show ?thesis by (auto simp: Todo_data_owner sint_word_of_int_fits)
next
  case Undefined
  then show ?thesis
    using fkey_owner [OF assms(2), of r] Todo_by_id_Some [OF assms(1)]
    by (simp add: Todo_data_owner)
next
  case Null
  then show ?thesis
    using fkey_owner [OF assms(2), of r] Todo_by_id_Some [OF assms(1)]
    by (simp add: Todo_data_owner)
qed

section \<open>Updating a Todo\<close>

text \<open>
  Claim C2 says that \<^verbatim>\<open>update\<close> fails with not-found or the referenced-user error, or
  else applies the supplied fields and refreshes \<open>updatedAt\<close>. On the scenario store, at
  time 400: the empty body returns Todo 1 with \<open>updatedAt\<close> still 200; the bodies
  \<^verbatim>\<open>{userId: null}\<close> and \<^verbatim>\<open>{title: null}\<close>, which pass validation, and the owner
  \<open>2^63\<close>, which no User has, end on Todo 1 with an error of the storage client (status
  500); so does any update of the id \<open>2^63\<close>, which no Todo has.
\<close>

theorem update_keeps_updatedAt_or_fails_in_the_storage_client:
  "TodoService_update 1 \<lparr>upd_title = Undefined, upd_completed = Undefined, upd_userId = Undefined\<rparr>
      400 scenario_store
     = (Inr \<lparr>todo_row = Buy_milk, user = Embedded (Some Ann)\<rparr>, scenario_store)
   \<and> todo_updatedAt Buy_milk = 200
   \<and> TodoService_update 1 \<lparr>upd_title = Undefined, upd_completed = Undefined, upd_userId = Null\<rparr>
      400 scenario_store
     = (Inl PrismaClientValidationError, scenario_store)
   \<and> getStatus PrismaClientValidationError = 500
   \<and> TodoService_update 1 \<lparr>upd_title = Null, upd_completed = Undefined, upd_userId = Undefined\<rparr>
      400 scenario_store
     = (Inl PrismaClientValidationError, scenario_store)
   \<and> 2 ^ 63 \<notin> User_ids scenario_store
   \<and> TodoService_update 1 \<lparr>upd_title = Undefined, upd_completed = Undefined, upd_userId = Value (2 ^ 63)\<rparr>
      400 scenario_store
     = (Inl (PrismaClientKnownRequestError ''P2033''), scenario_store)
   \<and> 2 ^ 63 \<notin> Todo_ids scenario_store
   \<and> TodoService_update (2 ^ 63) \<lparr>upd_title = Undefined, upd_completed = Value True, upd_userId = Undefined\<rparr>
      400 scenario_store
     = (Inl (PrismaClientKnownRequestError ''P2033''), scenario_store)
   \<and> getStatus (PrismaClientKnownRequestError ''P2033'') = 500"
proof -
  have t: "Todo_by_id scenario_store 1 = Some Buy_milk" by (simp add: scenario_lookups)
  have a: "TodoService_update 1 \<lparr>upd_title = Undefined, upd_completed = Undefined, upd_userId = Undefined\<rparr>
      400 scenario_store
     = (Inr \<lparr>todo_row = Buy_milk, user = Embedded (Some Ann)\<rparr>, scenario_store)"
    using update_applies [OF t, of "\<lparr>upd_title = Undefined, upd_completed = Undefined, upd_userId = Undefined\<rparr>" 400]
    by (simp add: Todo_data_def scenario_store_def Buy_milk_def Ann_def User_by_id_def)
  have b: "TodoService_update 1 \<lparr>upd_title = Undefined, upd_completed = Undefined, upd_userId = Null\<rparr>
      400 scenario_store = (Inl PrismaClientValidationError, scenario_store)"
    using update_null_user [OF t] by simp
  have c: "TodoService_update 1 \<lparr>upd_title = Null, upd_completed = Undefined, upd_userId = Undefined\<rparr>
      400 scenario_store = (Inl PrismaClientValidationError, scenario_store)"
    using update_null_field [OF t, of "\<lparr>upd_title = Null, upd_completed = Undefined, upd_userId = Undefined\<rparr>"]
    by simp
  have d: "TodoService_update 1 \<lparr>upd_title = Undefined, upd_completed = Undefined, upd_userId = Value (2 ^ 63)\<rparr>
      400 scenario_store = (Inl (PrismaClientKnownRequestError ''P2033''), scenario_store)"
    using update_big_user [OF t, of "\<lparr>upd_title = Undefined, upd_completed = Undefined, upd_userId = Value (2 ^ 63)\<rparr>" "2 ^ 63"]
    by (simp add: fits_INTEGER_def)
  have e: "TodoService_update (2 ^ 63) \<lparr>upd_title = Undefined, upd_completed = Value True, upd_userId = Undefined\<rparr>
      400 scenario_store = (Inl (PrismaClientKnownRequestError ''P2033''), scenario_store)"
    using update_out_of_range [of "2 ^ 63"] by (simp add: fits_INTEGER_def)
  from a b c d e show ?thesis by (simp add: scenario_lookups) (simp add: Buy_milk_def)
qed

text \<open>
  Claim C2, amended. \<^verbatim>\<open>TodoService.update\<close> with an id that fits an \<^verbatim>\<open>INTEGER\<close>: when
  no Todo row has the id, the call fails with \<^verbatim>\<open>NotFoundException\<close>, whatever the body
  holds (the owner is looked up only after the Todo was found). When the Todo exists
  and the body names an owner that fits an \<^verbatim>\<open>INTEGER\<close> and that no User row has, it
  fails with the same \<^verbatim>\<open>BadRequestException\<close> as \<^verbatim>\<open>create\<close>. When the Todo exists, no
  field of the body is null and the owner the body names, if any, fits and exists, the
  row keeps its id and creation time, takes the fields the body holds and keeps the
  others, gets the current time as \<open>updatedAt\<close> if the body holds a field at all (an
  empty body leaves \<open>updatedAt\<close> as it was), and is returned with its owner's User row
  embedded; rows with another id stay as they are.
\<close>

theorem update_precedence_and_effect:
  assumes "fits_INTEGER i"
  shows
  "(i \<notin> Todo_ids s \<longrightarrow>
      TodoService_update i p now s =
        (Inl (NotFoundException (Text (''Todo with ID '' @ number_to_string i @ '' not found''))), s))
   \<and> (Todo_by_id s i = Some r \<and> upd_userId p = Value uid \<and> fits_INTEGER uid
        \<and> uid \<notin> User_ids s \<longrightarrow>
      TodoService_update i p now s =
        (Inl (BadRequestException (Text (''User with ID '' @ number_to_string uid @ '' not found''))), s)
      \<and> TodoService_create \<lparr>title = t, completed = c, userId = uid\<rparr> now s =
        (Inl (BadRequestException (Text (''User with ID '' @ number_to_string uid @ '' not found''))), s))
   \<and> (Todo_by_id s i = Some r \<and> Todo_userId_fkey s
        \<and> upd_title p \<noteq> Null \<and> upd_completed p \<noteq> Null \<and> upd_userId p \<noteq> Null
        \<and> (\<forall>uid. upd_userId p = Value uid \<longrightarrow> fits_INTEGER uid \<and> uid \<in> User_ids s) \<longrightarrow>
      (\<exists>u. TodoService_update i p now s =
          (Inr \<lparr>todo_row =
                  \<lparr>todo_id = todo_id r,
                   todo_title = (case upd_title p of Value t \<Rightarrow> t | _ \<Rightarrow> todo_title r),
                   todo_completed = (case upd_completed p of Value c \<Rightarrow> c | _ \<Rightarrow> todo_completed r),
                   todo_createdAt = todo_createdAt r,
                   todo_updatedAt =
                     (if upd_title p = Undefined \<and> upd_completed p = Undefined
                         \<and> upd_userId p = Undefined
                      then todo_updatedAt r else now),
                   todo_userId =
                     (case upd_userId p of Value w \<Rightarrow> word_of_int w | _ \<Rightarrow> todo_userId r)\<rparr>,
                user = Embedded (Some u)\<rparr>,
           s\<lparr>Todo_table :=
               map (\<lambda>x. if sint (todo_id x) = i then Todo_data p now x else x) (Todo_table s)\<rparr>)
         \<and> u \<in> set (User_table s)
         \<and> sint (user_id u) = (case upd_userId p of Value w \<Rightarrow> w | _ \<Rightarrow> sint (todo_userId r))))"
proof (intro conjI impI)
  assume "i \<notin> Todo_ids s"
  then show "TodoService_update i p now s =
        (Inl (NotFoundException (Text (''Todo with ID '' @ number_to_string i @ '' not found''))), s)"
    using assms by (simp add: update_missing todo_not_found_def)
next
  assume a: "Todo_by_id s i = Some r \<and> upd_userId p = Value uid \<and> fits_INTEGER uid
        \<and> uid \<notin> User_ids s"
  then show "TodoService_update i p now s =
        (Inl (BadRequestException (Text (''User with ID '' @ number_to_string uid @ '' not found''))), s)"
    using update_missing_user [of s i r p uid now] by (simp add: user_not_found_def)
  from a show "TodoService_create \<lparr>title = t, completed = c, userId = uid\<rparr> now s =
        (Inl (BadRequestException (Text (''User with ID '' @ number_to_string uid @ '' not found''))), s)"
    using create_missing_user [of "\<lparr>title = t, completed = c, userId = uid\<rparr>" s now]
    by (simp add: user_not_found_def)
next
  assume a: "Todo_by_id s i = Some r \<and> Todo_userId_fkey s
        \<and> upd_title p \<noteq> Null \<and> upd_completed p \<noteq> Null \<and> upd_userId p \<noteq> Null
        \<and> (\<forall>uid. upd_userId p = Value uid \<longrightarrow> fits_INTEGER uid \<and> uid \<in> User_ids s)"
  then have ok: "\<And>uid. upd_userId p = Value uid \<Longrightarrow> fits_INTEGER uid \<and> uid \<in> User_ids s"
    by blast
  from a obtain u where u: "User_by_id s (sint (todo_userId (Todo_data p now r))) = Some u"
    using updated_owner [of s i r p now] by blast
  have res: "TodoService_update i p now s =
     (Inr \<lparr>todo_row = Todo_data p now r, user = Embedded (Some u)\<rparr>,
      s\<lparr>Todo_table :=
          map (\<lambda>x. if sint (todo_id x) = i then Todo_data p now x else x) (Todo_table s)\<rparr>)"
    using update_applies [of s i r p now] a ok u by simp
  have flds: "Todo_data p now r =
     \<lparr>todo_id = todo_id r,
      todo_title = (case upd_title p of Value t \<Rightarrow> t | _ \<Rightarrow> todo_title r),
      todo_completed = (case upd_completed p of Value c \<Rightarrow> c | _ \<Rightarrow> todo_completed r),
      todo_createdAt = todo_createdAt r,
      todo_updatedAt =
        (if upd_title p = Undefined \<and> upd_completed p = Undefined \<and> upd_userId p = Undefined
         then todo_updatedAt r else now),
      todo_userId = (case upd_userId p of Value w \<Rightarrow> word_of_int w | _ \<Rightarrow> todo_userId r)\<rparr>"
    using a by (simp add: Todo_data_fields)
  have own: "sint (todo_userId (Todo_data p now r))
      = (case upd_userId p of Value w \<Rightarrow> w | _ \<Rightarrow> sint (todo_userId r))"
    using ok by (cases "upd_userId p") (simp_all add: Todo_data_owner sint_word_of_int_fits)
  have mem: "u \<in> set (User_table s) \<and> sint (user_id u) = sint (todo_userId (Todo_data p now r))"
    using User_by_id_Some [OF u] by simp
  from res flds own mem
  show "\<exists>u. TodoService_update i p now s =
          (Inr \<lparr>todo_row =
                  \<lparr>todo_id = todo_id r,
                   todo_title = (case upd_title p of Value t \<Rightarrow> t | _ \<Rightarrow> todo_title r),
                   todo_completed = (case upd_completed p of Value c \<Rightarrow> c | _ \<Rightarrow> todo_completed r),
                   todo_createdAt = todo_createdAt r,
                   todo_updatedAt =
                     (if upd_title p = Undefined \<and> upd_completed p = Undefined
                         \<and> upd_userId p = Undefined
                      then todo_updatedAt r else now),
                   todo_userId =
                     (case upd_userId p of Value w \<Rightarrow> word_of_int w | _ \<Rightarrow> todo_userId r)\<rparr>,
                user = Embedded (Some u)\<rparr>,
           s\<lparr>Todo_table :=
               map (\<lambda>x. if sint (todo_id x) = i then Todo_data p now x else x) (Todo_table s)\<rparr>)
         \<and> u \<in> set (User_table s)
         \<and> sint (user_id u) = (case upd_userId p of Value w \<Rightarrow> w | _ \<Rightarrow> sint (todo_userId r))"
    by (intro exI [of _ u]) (simp only: simp_thms)
qed


theorem update_precedence_and_effect_witness:
  "fits_INTEGER 7 \<and> fits_INTEGER 1
   \<and> TodoService_update 7 \<lparr>upd_title = Undefined, upd_completed = Value True, upd_userId = Value 999\<rparr>
      400 scenario_store
     = (Inl (NotFoundException (Text ''Todo with ID 7 not found'')), scenario_store)
   \<and> TodoService_update 1 \<lparr>upd_title = Undefined, upd_completed = Value True, upd_userId = Value 999\<rparr>
      400 scenario_store
     = (Inl (BadRequestException (Text ''User with ID 999 not found'')), scenario_store)
   \<and> TodoService_update 1 \<lparr>upd_title = Undefined, upd_completed = Value True, upd_userId = Undefined\<rparr>
      400 scenario_store
     = (Inr \<lparr>todo_row = Buy_milk\<lparr>todo_completed := True, todo_updatedAt := 400\<rparr>,
             user = Embedded (Some Ann)\<rparr>,
        scenario_store\<lparr>Todo_table := [Buy_milk\<lparr>todo_completed := True, todo_updatedAt := 400\<rparr>]\<rparr>)
   \<and> TodoService_update 1 \<lparr>upd_title = Value ''Buy bread'', upd_completed = Undefined, upd_userId = Value 1\<rparr>
      400 scenario_store
     = (Inr \<lparr>todo_row = Buy_milk\<lparr>todo_title := ''Buy bread'', todo_updatedAt := 400\<rparr>,
             user = Embedded (Some Ann)\<rparr>,
        scenario_store\<lparr>Todo_table := [Buy_milk\<lparr>todo_title := ''Buy bread'', todo_updatedAt := 400\<rparr>]\<rparr>)
   \<and> TodoService_update 1 \<lparr>upd_title = Undefined, upd_completed = Undefined, upd_userId = Undefined\<rparr>
      400 scenario_store
     = (Inr \<lparr>todo_row = Buy_milk, user = Embedded (Some Ann)\<rparr>,
        scenario_store\<lparr>Todo_table := [Buy_milk]\<rparr>)"
proof (intro conjI)
  show f7: "fits_INTEGER 7" and f1: "fits_INTEGER 1" by (simp_all add: fits_small)
  show "TodoService_update 7 \<lparr>upd_title = Undefined, upd_completed = Value True, upd_userId = Value 999\<rparr>
      400 scenario_store
     = (Inl (NotFoundException (Text ''Todo with ID 7 not found'')), scenario_store)"
    using update_precedence_and_effect [OF f7, of scenario_store
        "\<lparr>upd_title = Undefined, upd_completed = Value True, upd_userId = Value 999\<rparr>" 400]
    by (simp add: scenario_lookups number_to_string_7)
  show "TodoService_update 1 \<lparr>upd_title = Undefined, upd_completed = Value True, upd_userId = Value 999\<rparr>
      400 scenario_store
     = (Inl (BadRequestException (Text ''User with ID 999 not found'')), scenario_store)"
    using update_precedence_and_effect [OF f1, of scenario_store
        "\<lparr>upd_title = Undefined, upd_completed = Value True, upd_userId = Value 999\<rparr>" 400 Buy_milk 999]
    by (simp add: scenario_lookups number_to_string_999 fits_small)
  show "TodoService_update 1 \<lparr>upd_title = Undefined, upd_completed = Value True, upd_userId = Undefined\<rparr>
      400 scenario_store
     = (Inr \<lparr>todo_row = Buy_milk\<lparr>todo_completed := True, todo_updatedAt := 400\<rparr>,
             user = Embedded (Some Ann)\<rparr>,
        scenario_store\<lparr>Todo_table := [Buy_milk\<lparr>todo_completed := True, todo_updatedAt := 400\<rparr>]\<rparr>)"
    using update_precedence_and_effect [OF f1, of scenario_store
        "\<lparr>upd_title = Undefined, upd_completed = Value True, upd_userId = Undefined\<rparr>" 400 Buy_milk]
    by (auto simp: scenario_lookups) (auto simp: scenario_store_def Ann_def Buy_milk_def Todo_data_def)
  show "TodoService_update 1 \<lparr>upd_title = Value ''Buy bread'', upd_completed = Undefined, upd_userId = Value 1\<rparr>
      400 scenario_store
     = (Inr \<lparr>todo_row = Buy_milk\<lparr>todo_title := ''Buy bread'', todo_updatedAt := 400\<rparr>,
             user = Embedded (Some Ann)\<rparr>,
        scenario_store\<lparr>Todo_table := [Buy_milk\<lparr>todo_title := ''Buy bread'', todo_updatedAt := 400\<rparr>]\<rparr>)"
    using update_precedence_and_effect [OF f1, of scenario_store
        "\<lparr>upd_title = Value ''Buy bread'', upd_completed = Undefined, upd_userId = Value 1\<rparr>" 400 Buy_milk]
    by (auto simp: scenario_lookups fits_small) (auto simp: scenario_store_def Ann_def Buy_milk_def Todo_data_def)
  show "TodoService_update 1 \<lparr>upd_title = Undefined, upd_completed = Undefined, upd_userId = Undefined\<rparr>
      400 scenario_store
     = (Inr \<lparr>todo_row = Buy_milk, user = Embedded (Some Ann)\<rparr>,
        scenario_store\<lparr>Todo_table := [Buy_milk]\<rparr>)"
    using update_precedence_and_effect [OF f1, of scenario_store
        "\<lparr>upd_title = Undefined, upd_completed = Undefined, upd_userId = Undefined\<rparr>" 400 Buy_milk]
    by (auto simp: scenario_lookups) (auto simp: scenario_store_def Ann_def Buy_milk_def Todo_data_def)
qed

section \<open>Ids that are not in the Todo table\<close>

text \<open>
  Claim C4 says that every id no Todo row has gives not-found. The id \<open>2^63\<close>, which
  \<^verbatim>\<open>ParseIntPipe\<close> lets through and no Todo has, does not fit an \<^verbatim>\<open>INTEGER\<close>: the
  storage client raises an error that \<^verbatim>\<open>findOne\<close> does not catch, and \<^verbatim>\<open>findOne\<close>,
  \<^verbatim>\<open>update\<close> and \<^verbatim>\<open>remove\<close> end with status 500.
\<close>

theorem id_beyond_INTEGER_is_500_not_404:
  "2 ^ 63 \<notin> Todo_ids scenario_store
   \<and> TodoService_findOne (2 ^ 63) True scenario_store = Inl (PrismaClientKnownRequestError ''P2033'')
   \<and> TodoService_update (2 ^ 63) \<lparr>upd_title = Value ''Y'', upd_completed = Undefined, upd_userId = Undefined\<rparr>
        400 scenario_store
       = (Inl (PrismaClientKnownRequestError ''P2033''), scenario_store)
   \<and> TodoService_remove (2 ^ 63) scenario_store
       = (Inl (PrismaClientKnownRequestError ''P2033''), scenario_store)
   \<and> getStatus (PrismaClientKnownRequestError ''P2033'') = 500"
  using findOne_out_of_range [of "2 ^ 63" True scenario_store]
    update_out_of_range [of "2 ^ 63"
      "\<lparr>upd_title = Value ''Y'', upd_completed = Undefined, upd_userId = Undefined\<rparr>" 400 scenario_store]
    remove_out_of_range [of "2 ^ 63" scenario_store]
  by (simp add: scenario_lookups fits_INTEGER_def)

text \<open>
  Claim C4, amended. For an id that fits an \<^verbatim>\<open>INTEGER\<close> and that no Todo row has,
  \<^verbatim>\<open>findOne\<close>, \<^verbatim>\<open>update\<close> and \<^verbatim>\<open>remove\<close> fail with a \<^verbatim>\<open>NotFoundException\<close>
  (status 404), and \<^verbatim>\<open>update\<close> and \<^verbatim>\<open>remove\<close> return the store they were given.
\<close>

theorem missing_todo_not_found_no_write:
  assumes "fits_INTEGER i" and "i \<notin> Todo_ids s"
  shows "TodoService_findOne i includeUser s = Inl (todo_not_found i)
       \<and> TodoService_update i p now s = (Inl (todo_not_found i), s)
       \<and> TodoService_remove i s = (Inl (todo_not_found i), s)
       \<and> todo_not_found i =
           NotFoundException (Text (''Todo with ID '' @ number_to_string i @ '' not found''))
       \<and> getStatus (todo_not_found i) = 404"
  using assms
  by (simp add: findOne_missing update_missing remove_missing) (simp add: todo_not_found_def)

theorem missing_todo_not_found_no_write_witness:
  "fits_INTEGER 7 \<and> 7 \<notin> Todo_ids scenario_store
   \<and> TodoService_findOne 7 True scenario_store
       = Inl (NotFoundException (Text ''Todo with ID 7 not found''))
   \<and> TodoService_update 7 \<lparr>upd_title = Value ''Y'', upd_completed = Undefined, upd_userId = Undefined\<rparr> 400
       scenario_store
       = (Inl (NotFoundException (Text ''Todo with ID 7 not found'')), scenario_store)
   \<and> TodoService_remove 7 scenario_store
       = (Inl (NotFoundException (Text ''Todo with ID 7 not found'')), scenario_store)"
proof -
  have f: "fits_INTEGER 7" by (simp add: fits_small)
  have h: "7 \<notin> Todo_ids scenario_store" by (simp add: scenario_lookups)
  show ?thesis
    using f h missing_todo_not_found_no_write [OF f h, of True
        "\<lparr>upd_title = Value ''Y'', upd_completed = Undefined, upd_userId = Undefined\<rparr>" 400]
    by (simp add: number_to_string_7)
qed

section \<open>Owners that are not in the User table\<close>

text \<open>
  Claim C5 says that \<^verbatim>\<open>create\<close>, and every update whose body names the owner, fail
  with status 400 when no User has the id. In the scenario store no User has id 999 or
  \<open>2^63\<close> and no Todo has id 7: the update of Todo 7 with owner 999 fails with status
  404, since the Todo is looked up first; \<^verbatim>\<open>create\<close> with owner \<open>2^63\<close> and the update
  of Todo 1 with owner \<open>2^63\<close> end with an error of the storage client (status 500),
  since \<open>2^63\<close> does not fit an \<^verbatim>\<open>INTEGER\<close>.
\<close>

theorem missing_owner_answers_404_or_500:
  "999 \<notin> User_ids scenario_store
   \<and> TodoService_update 7 \<lparr>upd_title = Undefined, upd_completed = Undefined, upd_userId = Value 999\<rparr> 400
        scenario_store
       = (Inl (NotFoundException (Text ''Todo with ID 7 not found'')), scenario_store)
   \<and> getStatus (NotFoundException (Text ''Todo with ID 7 not found'')) = 404
   \<and> 2 ^ 63 \<notin> User_ids scenario_store
   \<and> TodoService_create \<lparr>title = ''X'', completed = Undefined, userId = 2 ^ 63\<rparr> 300 scenario_store
       = (Inl (PrismaClientKnownRequestError ''P2033''), scenario_store)
   \<and> TodoService_update 1 \<lparr>upd_title = Undefined, upd_completed = Undefined, upd_userId = Value (2 ^ 63)\<rparr>
        400 scenario_store
       = (Inl (PrismaClientKnownRequestError ''P2033''), scenario_store)
   \<and> getStatus (PrismaClientKnownRequestError ''P2033'') = 500"
proof -
  have t: "Todo_by_id scenario_store 1 = Some Buy_milk" by (simp add: scenario_lookups)
  have a: "TodoService_update 7 \<lparr>upd_title = Undefined, upd_completed = Undefined, upd_userId = Value 999\<rparr> 400
        scenario_store
       = (Inl (NotFoundException (Text ''Todo with ID 7 not found'')), scenario_store)"
    by (simp add: update_missing fits_small scenario_lookups todo_not_found_def number_to_string_7)
  have b: "TodoService_create \<lparr>title = ''X'', completed = Undefined, userId = 2 ^ 63\<rparr> 300 scenario_store
       = (Inl (PrismaClientKnownRequestError ''P2033''), scenario_store)"
    using create_out_of_range [of "\<lparr>title = ''X'', completed = Undefined, userId = 2 ^ 63\<rparr>" 300 scenario_store]
    by (simp add: fits_INTEGER_def)
  have c: "TodoService_update 1 \<lparr>upd_title = Undefined, upd_completed = Undefined, upd_userId = Value (2 ^ 63)\<rparr>
      400 scenario_store = (Inl (PrismaClientKnownRequestError ''P2033''), scenario_store)"
    using update_big_user [OF t, of "\<lparr>upd_title = Undefined, upd_completed = Undefined, upd_userId = Value (2 ^ 63)\<rparr>" "2 ^ 63"]
    by (simp add: fits_INTEGER_def)
  from a b c show ?thesis by (simp add: scenario_lookups)
qed

text \<open>
  Claim C5, amended. For an id \<open>uid\<close> that fits an \<^verbatim>\<open>INTEGER\<close> and that no User row
  has: \<^verbatim>\<open>create\<close> with that owner fails with a \<^verbatim>\<open>BadRequestException\<close> (status 400);
  \<^verbatim>\<open>update\<close> of an existing Todo with that owner in its body fails with the same
  exception; \<^verbatim>\<open>update\<close> of a Todo id that fits an \<^verbatim>\<open>INTEGER\<close> and that no row has
  fails with \<^verbatim>\<open>NotFoundException\<close>. In every case the store is returned as it was: no
  row is created and none is changed.
\<close>

theorem missing_owner_rejected_no_write:
  assumes "fits_INTEGER uid" and "uid \<notin> User_ids s"
  shows "(userId d = uid \<longrightarrow> TodoService_create d now s = (Inl (user_not_found (Value uid)), s))
       \<and> (upd_userId p = Value uid \<and> i \<in> Todo_ids s \<longrightarrow>
            TodoService_update i p now s = (Inl (user_not_found (Value uid)), s))
       \<and> (upd_userId p = Value uid \<and> fits_INTEGER i \<and> i \<notin> Todo_ids s \<longrightarrow>
            TodoService_update i p now s = (Inl (todo_not_found i), s))
       \<and> user_not_found (Value uid) =
           BadRequestException (Text (''User with ID '' @ number_to_string uid @ '' not found''))
       \<and> getStatus (user_not_found (Value uid)) = 400"
proof (intro conjI impI)
  assume "userId d = uid"
  then show "TodoService_create d now s = (Inl (user_not_found (Value uid)), s)"
    using assms create_missing_user [of d s now] by simp
next
  assume a: "upd_userId p = Value uid \<and> i \<in> Todo_ids s"
  then obtain r where "Todo_by_id s i = Some r"
    using Todo_by_id_None [of s i] by auto
  then show "TodoService_update i p now s = (Inl (user_not_found (Value uid)), s)"
    using a assms by (simp add: update_missing_user)
next
  assume "upd_userId p = Value uid \<and> fits_INTEGER i \<and> i \<notin> Todo_ids s"
  then show "TodoService_update i p now s = (Inl (todo_not_found i), s)"
    by (simp add: update_missing)
qed (simp_all add: user_not_found_def)

theorem missing_owner_rejected_no_write_witness:
  "fits_INTEGER 999 \<and> 999 \<notin> User_ids scenario_store
   \<and> TodoService_create \<lparr>title = ''X'', completed = Undefined, userId = 999\<rparr> 300 scenario_store
       = (Inl (BadRequestException (Text ''User with ID 999 not found'')), scenario_store)
   \<and> TodoService_update 1 \<lparr>upd_title = Undefined, upd_completed = Undefined, upd_userId = Value 999\<rparr> 300
        scenario_store
       = (Inl (BadRequestException (Text ''User with ID 999 not found'')), scenario_store)
   \<and> TodoService_update 7 \<lparr>upd_title = Undefined, upd_completed = Undefined, upd_userId = Value 999\<rparr> 300
        scenario_store
       = (Inl (NotFoundException (Text ''Todo with ID 7 not found'')), scenario_store)"
proof -
  have f: "fits_INTEGER 999" by (simp add: fits_small)
  have h: "999 \<notin> User_ids scenario_store" by (simp add: scenario_lookups)
  show ?thesis
    using f h
      missing_owner_rejected_no_write [OF f h, where d = "\<lparr>title = ''X'', completed = Undefined, userId = 999\<rparr>" and now = 300
            and p = "\<lparr>upd_title = Undefined, upd_completed = Undefined, upd_userId = Value 999\<rparr>" and i = 1]
      missing_owner_rejected_no_write [OF f h, where d = "\<lparr>title = ''X'', completed = Undefined, userId = 999\<rparr>" and now = 300
            and p = "\<lparr>upd_title = Undefined, upd_completed = Undefined, upd_userId = Value 999\<rparr>" and i = 7]
    by (simp add: scenario_lookups number_to_string_999 number_to_string_7 todo_not_found_def fits_small)
qed

lemma remove_present:
  assumes "Todo_by_id s i = Some r"
  shows "TodoService_remove i s =
     (Inr \<lparr>todo_row = r, user = Omitted\<rparr>,
      s\<lparr>Todo_table := filter (\<lambda>x. sint (todo_id x) \<noteq> i) (Todo_table s)\<rparr>)"
  using assms Todo_by_id_fits [OF assms]
  by (simp add: TodoService_remove_def findOne_present prisma_todo_delete_def include_user_def)



section \<open>The shape of the deleted record\<close>


lemma scenario_create:
  "TodoService_create \<lparr>title = ''X'', completed = Undefined, userId = 1\<rparr> 300 scenario_store
      = (Inr \<lparr>todo_row = \<lparr>todo_id = 2, todo_title = ''X'', todo_completed = False,
                todo_createdAt = 300, todo_updatedAt = 300, todo_userId = 1\<rparr>,
              user = Embedded (Some Ann)\<rparr>,
         scenario_store\<lparr>Todo_table := [Buy_milk, \<lparr>todo_id = 2, todo_title = ''X'', todo_completed = False,
                todo_createdAt = 300, todo_updatedAt = 300, todo_userId = 1\<rparr>], Todo_seq := 2\<rparr>)"
  using create_existing_user [of scenario_store "\<lparr>title = ''X'', completed = Undefined, userId = 1\<rparr>" Ann 300]
  by (simp add: scenario_lookups scenario_next_id fits_small Let_def)
    (simp add: scenario_store_def)


lemma find_append_fresh:
  "\<forall>x \<in> set xs. \<not> P x \<Longrightarrow> P y \<Longrightarrow> find P (xs @ [y]) = Some y"
  by (induction xs) auto

section \<open>Create, then get\<close>

text \<open>
  Claim C8. After a successful \<^verbatim>\<open>create\<close>, \<^verbatim>\<open>GET /todos/:id\<close> on the returned id, on
  the store \<^verbatim>\<open>create\<close> left, returns the very record \<^verbatim>\<open>create\<close> returned: every field
  equal, \<open>updatedAt\<close> and the embedded User included.
\<close>

theorem create_then_get_round_trip:
  assumes "TodoService_create d now s = (Inr pl, s')"
  shows "TodoController_findOne (sint (todo_id (todo_row pl))) None s' = Inr pl"
proof -
  from create_success [OF assms] obtain u where u: "User_by_id s (userId d) = Some u"
    and c: "completed d \<noteq> Null"
    and n: "fits_INTEGER (next_id (Todo_seq s) (map (\<lambda>r. sint (todo_id r)) (Todo_table s)))"
    by blast
  define k where "k = next_id (Todo_seq s) (map (\<lambda>r. sint (todo_id r)) (Todo_table s))"
  define r where "r = \<lparr>todo_id = word_of_int k,
               todo_title = title d,
               todo_completed = (case completed d of Value b \<Rightarrow> b | _ \<Rightarrow> False),
               todo_createdAt = now, todo_updatedAt = now, todo_userId = word_of_int (userId d)\<rparr>"
  have res: "pl = \<lparr>todo_row = r, user = Embedded (Some u)\<rparr>"
    and st: "s' = s\<lparr>Todo_table := Todo_table s @ [r], Todo_seq := k\<rparr>"
    using assms create_existing_user [OF u c n, of now] by (simp_all add: Let_def r_def k_def)
  have id: "sint (todo_id r) = k"
    using n by (simp add: r_def k_def sint_word_of_int_fits)
  have own: "sint (todo_userId r) = userId d"
    using User_by_id_fits [OF u] by (simp add: r_def sint_word_of_int_fits)
  have "k \<notin> set (map (\<lambda>r. sint (todo_id r)) (Todo_table s))"
    unfolding k_def by (rule next_id_fresh)
  then have "\<forall>x \<in> set (Todo_table s). \<not> (sint (todo_id x) = k)" by (simp add: image_iff) blast
  then have "find (\<lambda>x. sint (todo_id x) = k) (Todo_table s @ [r]) = Some r"
    using id by (intro find_append_fresh) simp_all
  then have "Todo_by_id s' k = Some r" by (simp add: Todo_by_id_def st)
  then have "TodoService_findOne k True s' = Inr (include_user True s' r)"
    by (rule findOne_present)
  moreover have "include_user True s' r = pl"
    using u own by (simp add: include_user_def res st)
  ultimately show ?thesis by (simp add: TodoController_findOne_def res id)
qed

theorem create_then_get_round_trip_witness:
  "TodoService_create \<lparr>title = ''X'', completed = Undefined, userId = 1\<rparr> 300 scenario_store
      = (Inr \<lparr>todo_row = \<lparr>todo_id = 2, todo_title = ''X'', todo_completed = False,
                todo_createdAt = 300, todo_updatedAt = 300, todo_userId = 1\<rparr>,
              user = Embedded (Some Ann)\<rparr>,
         scenario_store\<lparr>Todo_table := [Buy_milk, \<lparr>todo_id = 2, todo_title = ''X'', todo_completed = False,
                todo_createdAt = 300, todo_updatedAt = 300, todo_userId = 1\<rparr>], Todo_seq := 2\<rparr>)
   \<and> TodoController_findOne 2 None
        (scenario_store\<lparr>Todo_table := [Buy_milk, \<lparr>todo_id = 2, todo_title = ''X'', todo_completed = False,
                todo_createdAt = 300, todo_updatedAt = 300, todo_userId = 1\<rparr>], Todo_seq := 2\<rparr>)
      = Inr \<lparr>todo_row = \<lparr>todo_id = 2, todo_title = ''X'', todo_completed = False,
                todo_createdAt = 300, todo_updatedAt = 300, todo_userId = 1\<rparr>,
              user = Embedded (Some Ann)\<rparr>"
  using scenario_create create_then_get_round_trip [OF scenario_create] by simp

lemma sint_inject: "sint (x :: INTEGER) = sint y \<Longrightarrow> x = y"
  by (simp add: signed_word_eqI)

lemma user_findOne_present:
  "User_by_id s i = Some u \<Longrightarrow> UserService_findOne i incl s = Inr (include_todos incl s u)"
  using User_by_id_fits [of s i u]
  by (simp add: UserService_findOne_def prisma_user_findUnique_def)

lemma user_remove_present:
  assumes "User_by_id s uid = Some u"
  shows "UserService_remove uid s =
     (Inr \<lparr>user_row = u, todos = Omitted\<rparr>,
      s\<lparr>User_table := filter (\<lambda>x. sint (user_id x) \<noteq> uid) (User_table s),
        Todo_table := filter (\<lambda>t. sint (todo_userId t) \<noteq> uid) (Todo_table s)\<rparr>)"
  using assms User_by_id_fits [OF assms]
  by (simp add: UserService_remove_def user_findOne_present prisma_user_delete_def include_todos_def)

lemma pkey_same_id:
  assumes "Todo_pkey s" and "x \<in> set (Todo_table s)" and "t \<in> set (Todo_table s)"
    and "sint (todo_id x) = sint (todo_id t)"
  shows "x = t"
proof -
  from assms(4) have "todo_id x = todo_id t" by (rule sint_inject)
  with assms(1-3) show ?thesis by (auto simp: Todo_pkey_def distinct_map inj_on_def)
qed

section \<open>Deleting a User\<close>

text \<open>
  Claim C6. For a User row \<open>u\<close> with id \<open>uid\<close>, in a store whose Todo ids are distinct,
  \<^verbatim>\<open>UserService.remove\<close> returns \<open>u\<close> and leaves the store that the one storage call
  \<^verbatim>\<open>user.delete\<close> leaves: no User row with id \<open>uid\<close>, and the Todo table without the
  rows owned by \<open>uid\<close> (as many rows fewer as \<open>uid\<close> owned, the others kept). On that
  store \<^verbatim>\<open>TodoService.findOne\<close> fails with \<^verbatim>\<open>NotFoundException\<close> (status 404) on the id
  of every Todo \<open>uid\<close> owned. The service itself touches no Todo row: the rows go by the
  foreign key's \<^verbatim>\<open>ON DELETE CASCADE\<close>.
\<close>

theorem user_remove_cascades:
  assumes "User_by_id s uid = Some u" and "Todo_pkey s"
  shows "\<exists>s'. UserService_remove uid s = (Inr \<lparr>user_row = u, todos = Omitted\<rparr>, s')
     \<and> s' = snd (prisma_user_delete uid False s)
     \<and> uid \<notin> User_ids s'
     \<and> Todo_table s' = filter (\<lambda>t. sint (todo_userId t) \<noteq> uid) (Todo_table s)
     \<and> length (Todo_table s') + length (filter (\<lambda>t. sint (todo_userId t) = uid) (Todo_table s))
         = length (Todo_table s)
     \<and> (\<forall>t \<in> set (Todo_table s). sint (todo_userId t) = uid \<longrightarrow>
           TodoService_findOne (sint (todo_id t)) includeUser s'
             = Inl (todo_not_found (sint (todo_id t)))
           \<and> getStatus (todo_not_found (sint (todo_id t))) = 404)"
proof -
  define s' where "s' = s\<lparr>User_table := filter (\<lambda>x. sint (user_id x) \<noteq> uid) (User_table s),
        Todo_table := filter (\<lambda>t. sint (todo_userId t) \<noteq> uid) (Todo_table s)\<rparr>"
  have res: "UserService_remove uid s = (Inr \<lparr>user_row = u, todos = Omitted\<rparr>, s')"
    using user_remove_present [OF assms(1)] by (simp add: s'_def)
  have eng: "s' = snd (prisma_user_delete uid False s)"
    using assms(1) User_by_id_fits [OF assms(1)] by (simp add: prisma_user_delete_def s'_def)
  have gone: "uid \<notin> User_ids s'"
    by (auto simp: s'_def User_ids_def)
  have tab: "Todo_table s' = filter (\<lambda>t. sint (todo_userId t) \<noteq> uid) (Todo_table s)"
    by (simp add: s'_def)
  have cnt: "length (Todo_table s') + length (filter (\<lambda>t. sint (todo_userId t) = uid) (Todo_table s))
         = length (Todo_table s)"
    using sum_length_filter_compl [of "\<lambda>t. sint (todo_userId t) = uid" "Todo_table s"]
    by (simp add: tab)
  have nf: "TodoService_findOne (sint (todo_id t)) includeUser s' = Inl (todo_not_found (sint (todo_id t)))"
    if "t \<in> set (Todo_table s)" and "sint (todo_userId t) = uid" for t
  proof -
    have "sint (todo_id t) \<notin> Todo_ids s'"
    proof
      assume "sint (todo_id t) \<in> Todo_ids s'"
      then obtain x where x: "x \<in> set (Todo_table s)" "sint (todo_userId x) \<noteq> uid"
        "sint (todo_id x) = sint (todo_id t)"
        by (auto simp: tab Todo_ids_def)
      then have "x = t" using pkey_same_id [OF assms(2) x(1) that(1)] by simp
      with x(2) that(2) show False by simp
    qed
    then show ?thesis using fits_sint [of "todo_id t"] by (simp add: findOne_missing)
  qed
  have st: "getStatus (todo_not_found j) = 404" for j
    by (simp add: todo_not_found_def)
  from res eng gone tab cnt nf st show ?thesis by blast
qed

theorem user_remove_cascades_witness:
  "User_by_id scenario_store 1 = Some Ann \<and> Todo_pkey scenario_store
   \<and> UserService_remove 1 scenario_store =
       (Inr \<lparr>user_row = Ann, todos = Omitted\<rparr>, scenario_store\<lparr>User_table := [], Todo_table := []\<rparr>)
   \<and> TodoService_findOne 1 True (scenario_store\<lparr>User_table := [], Todo_table := []\<rparr>)
       = Inl (NotFoundException (Text ''Todo with ID 1 not found''))"
proof -
  have h1: "User_by_id scenario_store 1 = Some Ann" and h2: "Todo_pkey scenario_store"
    by (simp_all add: scenario_lookups)
  have del: "snd (prisma_user_delete 1 False scenario_store)
      = scenario_store\<lparr>User_table := [], Todo_table := []\<rparr>"
    by (simp add: prisma_user_delete_def h1 fits_small) (simp add: scenario_store_def Ann_def Buy_milk_def)
  have mem: "Buy_milk \<in> set (Todo_table scenario_store)" "sint (todo_userId Buy_milk) = 1"
    "sint (todo_id Buy_milk) = 1"
    by (simp_all add: scenario_store_def Buy_milk_def)
  from user_remove_cascades [OF h1 h2, of True] del mem h1 h2 show ?thesis
    by (auto simp: todo_not_found_def number_to_string_1)
qed

lemma findAll_rows:
  assumes "\<And>n. uid = Some n \<Longrightarrow> n \<noteq> 0 \<Longrightarrow> fits_INTEGER n"
  shows "TodoService_findAll uid incl s =
     Inr (map (include_user incl s)
       (sort_key (\<lambda>r. - todo_createdAt r)
         (if truthy uid then filter (\<lambda>r. sint (todo_userId r) = the uid) (Todo_table s)
          else Todo_table s)))"
  using assms by (cases uid) (simp_all add: TodoService_findAll_def prisma_todo_findMany_def)

lemma todo_row_include_user [simp]: "todo_row (include_user incl s r) = r"
  by (simp add: include_user_def)

lemma user_row_include_todos [simp]: "user_row (include_todos incl s u) = u"
  by (simp add: include_todos_def)

lemma findAll_newest_first:
  assumes "TodoService_findAll uid incl s = Inr pls"
  shows "sorted_wrt (\<lambda>a b. todo_createdAt a \<ge> todo_createdAt b) (map todo_row pls)"
proof -
  from assms obtain rs where pls: "pls = map (include_user incl s) (sort_key (\<lambda>r. - todo_createdAt r) rs)"
    by (auto simp: TodoService_findAll_def prisma_todo_findMany_def split: option.splits if_splits)
  have "sorted (map (\<lambda>r. - todo_createdAt r) (sort_key (\<lambda>r. - todo_createdAt r) rs))"
    by (rule sorted_sort_key)
  then show ?thesis
    by (simp add: pls sorted_wrt_map comp_def)
qed

lemma map_todo_row_include: "map todo_row (map (include_user incl s) rs) = rs"
  by (induction rs) simp_all

lemma findAll_filtered_nonzero:
  assumes "uid \<noteq> 0" and "fits_INTEGER uid"
  shows "\<exists>pls. TodoService_findAll (Some uid) incl s = Inr pls
     \<and> mset (map todo_row pls) = mset (filter (\<lambda>r. sint (todo_userId r) = uid) (Todo_table s))"
proof -
  have "TodoService_findAll (Some uid) incl s =
     Inr (map (include_user incl s)
       (sort_key (\<lambda>r. - todo_createdAt r)
         (filter (\<lambda>r. sint (todo_userId r) = uid) (Todo_table s))))"
    using assms findAll_rows [of "Some uid" incl s] by simp
  moreover have "mset (map todo_row (map (include_user incl s)
       (sort_key (\<lambda>r. - todo_createdAt r)
         (filter (\<lambda>r. sint (todo_userId r) = uid) (Todo_table s)))))
      = mset (filter (\<lambda>r. sint (todo_userId r) = uid) (Todo_table s))"
    by (simp only: map_todo_row_include mset_sort)
  ultimately show ?thesis by blast
qed

lemma findAll_unfiltered:
  "\<exists>pls. TodoService_findAll None incl s = Inr pls \<and> mset (map todo_row pls) = mset (Todo_table s)"
proof -
  have "TodoService_findAll None incl s =
     Inr (map (include_user incl s) (sort_key (\<lambda>r. - todo_createdAt r) (Todo_table s)))"
    using findAll_rows [of None incl s] by simp
  moreover have "mset (map todo_row (map (include_user incl s)
       (sort_key (\<lambda>r. - todo_createdAt r) (Todo_table s)))) = mset (Todo_table s)"
    by (simp only: map_todo_row_include mset_sort)
  ultimately show ?thesis by blast
qed

lemma include_user_field: "(user (include_user incl s r) \<noteq> Omitted) = incl"
  by (simp add: include_user_def)

lemma include_todos_field: "(todos (include_todos incl s u) \<noteq> Omitted) = incl"
  by (simp add: include_todos_def)

lemma findAll_user_field:
  assumes "TodoService_findAll uid incl s = Inr pls" and "pl \<in> set pls"
  shows "(user pl \<noteq> Omitted) = incl"
proof -
  from assms obtain r where "pl = include_user incl s r"
    by (auto simp: TodoService_findAll_def prisma_todo_findMany_def split: option.splits if_splits)
  then show ?thesis by (simp only: include_user_field)
qed

section \<open>Listing Todos\<close>

text \<open>
  Claim C3 holds for the order, for the \<^verbatim>\<open>user\<close> field and for every owner id other
  than zero that fits an \<^verbatim>\<open>INTEGER\<close> (\<open>findAll_newest_first\<close>, \<open>findAll_user_field\<close>,
  \<open>findAll_filtered_nonzero\<close>, \<open>findAll_unfiltered\<close>). For \<^verbatim>\<open>GET /todos?userId=0\<close> the
  test \<^verbatim>\<open>userId ? { userId } : undefined\<close> takes the number 0 for a missing parameter:
  in the scenario store the call returns Ann's Todo, which user 0 does not own, where
  the filter on owner 0 selects no row.
\<close>

theorem findAll_userId_zero_returns_every_todo:
  "TodoController_findAll (Some 0) None scenario_store
     = Inr [\<lparr>todo_row = Buy_milk, user = Embedded (Some Ann)\<rparr>]
   \<and> sint (todo_userId Buy_milk) \<noteq> 0
   \<and> filter (\<lambda>r. sint (todo_userId r) = 0) (Todo_table scenario_store) = []"
  by (simp add: TodoController_findAll_def TodoService_findAll_def prisma_todo_findMany_def
      include_user_def scenario_store_def Buy_milk_def Ann_def User_by_id_def)

lemma user_findOne_result:
  assumes "UserService_findOne i incl s = Inr pl"
  shows "\<exists>u. User_by_id s i = Some u \<and> pl = include_todos incl s u"
  using assms
  by (auto simp: UserService_findOne_def prisma_user_findUnique_def split: option.splits if_splits)

lemma not_False_flag: "(if q \<noteq> Some False then a else b) = (if q = Some False then b else a)"
  by simp

lemma or_false_flag: "or_false q = (q = Some True)"
  by (cases q) simp_all

section \<open>Defaults of the embedded relations\<close>

text \<open>
  Claim C9. With \<open>q\<close> the parsed query parameter (\<open>None\<close> when absent):
  \<^verbatim>\<open>GET /todos\<close> returns every Todo row, newest first (with a non-zero \<^verbatim>\<open>userId\<close> that
  fits an \<^verbatim>\<open>INTEGER\<close>, that owner's rows), and \<^verbatim>\<open>GET /todos/:id\<close> returns the row with
  that id, each record with the owner's User row embedded unless \<^verbatim>\<open>includeUser\<close> is
  false, in which case the \<^verbatim>\<open>user\<close> field is left out. \<^verbatim>\<open>GET /users\<close> returns every
  User row, newest first, and \<^verbatim>\<open>GET /users/:id\<close> returns the row with that id, each
  record with the list of the user's Todo rows embedded when \<^verbatim>\<open>includeTodos\<close> is true,
  and with the \<^verbatim>\<open>todos\<close> field left out otherwise.
\<close>

theorem embedding_defaults_differ:
  "TodoController_findAll None q s =
     Inr (map (\<lambda>r. \<lparr>todo_row = r,
                     user = (if q = Some False then Omitted
                             else Embedded (User_by_id s (sint (todo_userId r))))\<rparr>)
            (sort_key (\<lambda>r. - todo_createdAt r) (Todo_table s)))
   \<and> (n \<noteq> 0 \<and> fits_INTEGER n \<longrightarrow>
        TodoController_findAll (Some n) q s =
          Inr (map (\<lambda>r. \<lparr>todo_row = r,
                          user = (if q = Some False then Omitted
                                  else Embedded (User_by_id s (sint (todo_userId r))))\<rparr>)
                 (sort_key (\<lambda>r. - todo_createdAt r)
                    (filter (\<lambda>r. sint (todo_userId r) = n) (Todo_table s)))))
   \<and> (Todo_by_id s i = Some r \<longrightarrow>
        TodoController_findOne i q s =
          Inr \<lparr>todo_row = r,
               user = (if q = Some False then Omitted
                       else Embedded (User_by_id s (sint (todo_userId r))))\<rparr>)
   \<and> UserController_findAll q s =
       map (\<lambda>u. \<lparr>user_row = u,
                  todos = (if q = Some True
                           then Embedded (filter (\<lambda>t. todo_userId t = user_id u) (Todo_table s))
                           else Omitted)\<rparr>)
         (sort_key (\<lambda>u. - user_createdAt u) (User_table s))
   \<and> (User_by_id s j = Some u \<longrightarrow>
        UserController_findOne j q s =
          Inr \<lparr>user_row = u,
               todos = (if q = Some True
                        then Embedded (filter (\<lambda>t. todo_userId t = user_id u) (Todo_table s))
                        else Omitted)\<rparr>)"
proof (intro conjI impI)
  show "TodoController_findAll None q s =
     Inr (map (\<lambda>r. \<lparr>todo_row = r,
                     user = (if q = Some False then Omitted
                             else Embedded (User_by_id s (sint (todo_userId r))))\<rparr>)
            (sort_key (\<lambda>r. - todo_createdAt r) (Todo_table s)))"
    by (simp add: TodoController_findAll_def TodoService_findAll_def prisma_todo_findMany_def
        include_user_def not_False_flag)
next
  assume "n \<noteq> 0 \<and> fits_INTEGER n"
  then show "TodoController_findAll (Some n) q s =
          Inr (map (\<lambda>r. \<lparr>todo_row = r,
                          user = (if q = Some False then Omitted
                                  else Embedded (User_by_id s (sint (todo_userId r))))\<rparr>)
                 (sort_key (\<lambda>r. - todo_createdAt r)
                    (filter (\<lambda>r. sint (todo_userId r) = n) (Todo_table s))))"
    by (simp add: TodoController_findAll_def TodoService_findAll_def prisma_todo_findMany_def
        include_user_def not_False_flag)
next
  assume "Todo_by_id s i = Some r"
  then show "TodoController_findOne i q s =
          Inr \<lparr>todo_row = r,
               user = (if q = Some False then Omitted
                       else Embedded (User_by_id s (sint (todo_userId r))))\<rparr>"
    by (simp add: TodoController_findOne_def findOne_present include_user_def not_False_flag)
next
  show "UserController_findAll q s =
       map (\<lambda>u. \<lparr>user_row = u,
                  todos = (if q = Some True
                           then Embedded (filter (\<lambda>t. todo_userId t = user_id u) (Todo_table s))
                           else Omitted)\<rparr>)
         (sort_key (\<lambda>u. - user_createdAt u) (User_table s))"
    by (simp add: UserController_findAll_def UserService_findAll_def prisma_user_findMany_def
        include_todos_def or_false_flag)
next
  assume "User_by_id s j = Some u"
  then show "UserController_findOne j q s =
          Inr \<lparr>user_row = u,
               todos = (if q = Some True
                        then Embedded (filter (\<lambda>t. todo_userId t = user_id u) (Todo_table s))
                        else Omitted)\<rparr>"
    by (simp add: UserController_findOne_def user_findOne_present include_todos_def or_false_flag)
qed

lemma scenario_tables:
  "Todo_table scenario_store = [Buy_milk]" "User_table scenario_store = [Ann]"
  "todo_userId Buy_milk = 1" "user_id Ann = 1"
  by (simp_all add: scenario_store_def Buy_milk_def Ann_def)

theorem embedding_defaults_differ_witness:
  "TodoController_findAll None None scenario_store
      = Inr [\<lparr>todo_row = Buy_milk, user = Embedded (Some Ann)\<rparr>]
   \<and> TodoController_findAll None (Some True) scenario_store
      = Inr [\<lparr>todo_row = Buy_milk, user = Embedded (Some Ann)\<rparr>]
   \<and> TodoController_findAll None (Some False) scenario_store
      = Inr [\<lparr>todo_row = Buy_milk, user = Omitted\<rparr>]
   \<and> TodoController_findAll (Some 1) None scenario_store
      = Inr [\<lparr>todo_row = Buy_milk, user = Embedded (Some Ann)\<rparr>]
   \<and> TodoController_findAll (Some 1) (Some False) scenario_store
      = Inr [\<lparr>todo_row = Buy_milk, user = Omitted\<rparr>]
   \<and> TodoController_findOne 1 None scenario_store
      = Inr \<lparr>todo_row = Buy_milk, user = Embedded (Some Ann)\<rparr>
   \<and> TodoController_findOne 1 (Some True) scenario_store
      = Inr \<lparr>todo_row = Buy_milk, user = Embedded (Some Ann)\<rparr>
   \<and> TodoController_findOne 1 (Some False) scenario_store
      = Inr \<lparr>todo_row = Buy_milk, user = Omitted\<rparr>
   \<and> UserController_findAll None scenario_store = [\<lparr>user_row = Ann, todos = Omitted\<rparr>]
   \<and> UserController_findAll (Some False) scenario_store = [\<lparr>user_row = Ann, todos = Omitted\<rparr>]
   \<and> UserController_findAll (Some True) scenario_store
      = [\<lparr>user_row = Ann, todos = Embedded [Buy_milk]\<rparr>]
   \<and> UserController_findOne 1 None scenario_store = Inr \<lparr>user_row = Ann, todos = Omitted\<rparr>
   \<and> UserController_findOne 1 (Some False) scenario_store = Inr \<lparr>user_row = Ann, todos = Omitted\<rparr>
   \<and> UserController_findOne 1 (Some True) scenario_store
      = Inr \<lparr>user_row = Ann, todos = Embedded [Buy_milk]\<rparr>"
  using embedding_defaults_differ [of None scenario_store 1 1 Buy_milk 1 Ann]
    embedding_defaults_differ [of "Some True" scenario_store 1 1 Buy_milk 1 Ann]
    embedding_defaults_differ [of "Some False" scenario_store 1 1 Buy_milk 1 Ann]
  by (simp add: scenario_lookups scenario_tables fits_small)

lemma whitelist_error_present:
  assumes "k \<in> fst ` set b" and "k \<notin> fst ` set md"
  shows "''property '' @ k @ '' should not exist'' \<in> set (whitelist_errors bootstrap_ValidationPipe md b)"
  using assms by (auto simp: whitelist_errors_def bootstrap_ValidationPipe_def)

lemma Body_rejects_unknown:
  assumes "k \<in> fst ` set b" and "k \<notin> fst ` set md"
  shows "\<exists>errors. Body md handler b s = (Inl (BadRequestException (Items errors)), s)
           \<and> ''property '' @ k @ '' should not exist'' \<in> set errors"
proof -
  define errors where
    "errors = whitelist_errors bootstrap_ValidationPipe md b @ concat (map (property_errors b) md)"
  have m: "''property '' @ k @ '' should not exist'' \<in> set errors"
    using whitelist_error_present [OF assms] by (simp add: errors_def)
  then have "errors \<noteq> []" by (cases errors) simp_all
  then have "Body md handler b s = (Inl (BadRequestException (Items errors)), s)"
    by (simp add: Body_def ValidationPipe_transform_def Let_def flip: errors_def)
  with m show ?thesis by blast
qed

lemma metadata_properties:
  "fst ` set CreateTodoDto_metadata = {''title'', ''completed'', ''userId''}"
  "fst ` set UpdateTodoDto_metadata = {''title'', ''completed'', ''userId''}"
  "fst ` set CreateUserDto_metadata = {''name''}"
  "fst ` set UpdateUserDto_metadata = {''name''}"
  by (auto simp: CreateTodoDto_metadata_def UpdateTodoDto_metadata_def CreateUserDto_metadata_def
      UpdateUserDto_metadata_def PartialType_def)

section \<open>Unknown fields of a request body\<close>

text \<open>
  Claim C7. A body with a key that the DTO of the route does not declare (for the Todo
  routes a key other than \<^verbatim>\<open>title\<close>, \<^verbatim>\<open>completed\<close>, \<^verbatim>\<open>userId\<close>; for the User routes a
  key other than \<^verbatim>\<open>name\<close>) ends in a \<^verbatim>\<open>BadRequestException\<close> whose messages include
  \<^verbatim>\<open>property <key> should not exist\<close>; the controller handler, whatever it is, is not
  run and the store is as before.
\<close>

theorem unknown_body_field_rejected:
  assumes "k \<in> fst ` set b"
  shows "(k \<notin> {''title'', ''completed'', ''userId''} \<longrightarrow>
          (\<exists>errors. Body CreateTodoDto_metadata handler b s = (Inl (BadRequestException (Items errors)), s)
             \<and> ''property '' @ k @ '' should not exist'' \<in> set errors)
        \<and> (\<exists>errors. Body UpdateTodoDto_metadata handler b s = (Inl (BadRequestException (Items errors)), s)
             \<and> ''property '' @ k @ '' should not exist'' \<in> set errors))
      \<and> (k \<notin> {''name''} \<longrightarrow>
          (\<exists>errors. Body CreateUserDto_metadata handler b s = (Inl (BadRequestException (Items errors)), s)
             \<and> ''property '' @ k @ '' should not exist'' \<in> set errors)
        \<and> (\<exists>errors. Body UpdateUserDto_metadata handler b s = (Inl (BadRequestException (Items errors)), s)
             \<and> ''property '' @ k @ '' should not exist'' \<in> set errors))"
  using assms Body_rejects_unknown [of k b _ handler s]
  by (simp add: metadata_properties)

theorem unknown_body_field_rejected_witness:
  "''hacker'' \<in> fst ` set [(''title'', JString ''Test''), (''hacker'', JString ''evil'')]
   \<and> ''hacker'' \<notin> {''title'', ''completed'', ''userId''} \<and> ''hacker'' \<notin> {''name''}
   \<and> (\<exists>errors. Body CreateTodoDto_metadata (\<lambda>dto s. (Inr dto, empty_store))
          [(''title'', JString ''Test''), (''hacker'', JString ''evil'')] scenario_store
            = (Inl (BadRequestException (Items errors)), scenario_store)
          \<and> ''property hacker should not exist'' \<in> set errors)
   \<and> (\<exists>errors. Body UpdateUserDto_metadata (\<lambda>dto s. (Inr dto, empty_store))
          [(''title'', JString ''Test''), (''hacker'', JString ''evil'')] scenario_store
            = (Inl (BadRequestException (Items errors)), scenario_store)
          \<and> ''property hacker should not exist'' \<in> set errors)"
proof -
  have h: "''hacker'' \<in> fst ` set [(''title'', JString ''Test''), (''hacker'', JString ''evil'')]"
    by simp
  from h unknown_body_field_rejected [OF h, of "\<lambda>dto s. (Inr dto, empty_store)" scenario_store]
  show ?thesis by simp
qed

section \<open>The integrity constraints hold on every store the services produce\<close>

text \<open>
  The primary keys and the foreign key of the migration hold on the empty database and
  are kept by every write of the two services, so the stores the theorems above assume
  (distinct Todo ids, every Todo's owner present) are the stores requests can reach. The
  scenario store is the one the first two requests of the specification's scenario
  leave.
\<close>

lemma fkey_iff:
  "Todo_userId_fkey s = (\<forall>t \<in> set (Todo_table s). sint (todo_userId t) \<in> User_ids s)"
  by (simp add: Todo_userId_fkey_def list_all_iff User_by_id_None)

lemma User_ids_Todo_table [simp]: "User_ids (s\<lparr>Todo_table := ts\<rparr>) = User_ids s"
  by (simp add: User_ids_def)

lemma User_ids_Todo_seq [simp]: "User_ids (s\<lparr>Todo_table := ts, Todo_seq := q\<rparr>) = User_ids s"
  by (simp add: User_ids_def)

lemma empty_store_constraints:
  "User_pkey empty_store \<and> Todo_pkey empty_store \<and> Todo_userId_fkey empty_store"
  by (simp add: empty_store_def User_pkey_def Todo_pkey_def Todo_userId_fkey_def)

lemma create_store:
  "snd (TodoService_create d now s) = s
   \<or> (\<exists>r. snd (TodoService_create d now s)
            = s\<lparr>Todo_table := Todo_table s @ [r], Todo_seq := sint (todo_id r)\<rparr>
          \<and> sint (todo_id r) \<notin> Todo_ids s
          \<and> sint (todo_userId r) \<in> User_ids s)"
proof (cases "\<exists>pl s'. TodoService_create d now s = (Inr pl, s')")
  case True
  then obtain pl s' where ok: "TodoService_create d now s = (Inr pl, s')" by blast
  from create_success [OF ok] obtain u where u: "User_by_id s (userId d) = Some u"
    and c: "completed d \<noteq> Null"
    and n: "fits_INTEGER (next_id (Todo_seq s) (map (\<lambda>r. sint (todo_id r)) (Todo_table s)))"
    by blast
  define k where "k = next_id (Todo_seq s) (map (\<lambda>r. sint (todo_id r)) (Todo_table s))"
  define r where "r = \<lparr>todo_id = word_of_int k,
               todo_title = title d,
               todo_completed = (case completed d of Value b \<Rightarrow> b | _ \<Rightarrow> False),
               todo_createdAt = now, todo_updatedAt = now, todo_userId = word_of_int (userId d)\<rparr>"
  have id: "sint (todo_id r) = k" using n by (simp add: r_def k_def sint_word_of_int_fits)
  have "userId d \<in> User_ids s" using u User_by_id_None [of s "userId d"] by simp
  then have own: "sint (todo_userId r) \<in> User_ids s"
    using User_by_id_fits [OF u] by (simp add: r_def sint_word_of_int_fits)
  have "k \<notin> set (map (\<lambda>r. sint (todo_id r)) (Todo_table s))"
    unfolding k_def by (rule next_id_fresh)
  then have fresh: "sint (todo_id r) \<notin> Todo_ids s" by (simp add: id Todo_ids_def)
  have "snd (TodoService_create d now s)
      = s\<lparr>Todo_table := Todo_table s @ [r], Todo_seq := sint (todo_id r)\<rparr>"
    using create_existing_user [OF u c n, of now] by (simp add: Let_def id flip: k_def r_def)
  with own fresh show ?thesis by blast
next
  case False
  have "snd (TodoService_create d now s) = s"
  proof (cases "fits_INTEGER (userId d)")
    case f: False
    then show ?thesis by (simp add: create_out_of_range)
  next
    case f: True
    show ?thesis
    proof (cases "User_by_id s (userId d)")
      case None
      then have "userId d \<notin> User_ids s" by (simp add: User_by_id_None)
      then show ?thesis using f by (simp add: create_missing_user)
    next
      case (Some u)
      show ?thesis
      proof (cases "completed d = Null")
        case True
        then show ?thesis using Some by (simp add: create_null_completed)
      next
        case c: False
        show ?thesis
        proof (cases "fits_INTEGER (next_id (Todo_seq s) (map (\<lambda>r. sint (todo_id r)) (Todo_table s)))")
          case True
          from create_existing_user [OF Some c True, of now] False show ?thesis
            by (simp add: Let_def)
        next
          case n: False
          then show ?thesis using Some c by (simp add: create_exhausted)
        qed
      qed
    qed
  qed
  then show ?thesis by simp
qed

lemma distinct_sint_ids:
  "distinct (map todo_id rs) \<Longrightarrow> sint (todo_id r) \<notin> (\<lambda>x. sint (todo_id x)) ` set rs \<Longrightarrow>
     distinct (map todo_id (rs @ [r]))"
  by (auto simp: image_iff)

lemma create_keeps_constraints:
  assumes "Todo_pkey s" and "Todo_userId_fkey s"
  shows "Todo_pkey (snd (TodoService_create d now s))
       \<and> Todo_userId_fkey (snd (TodoService_create d now s))
       \<and> User_table (snd (TodoService_create d now s)) = User_table s"
proof -
  from create_store [of d now s] show ?thesis
  proof (elim disjE exE conjE)
    assume "snd (TodoService_create d now s) = s"
    then show ?thesis using assms by simp
  next
    fix r
    assume st: "snd (TodoService_create d now s)
        = s\<lparr>Todo_table := Todo_table s @ [r], Todo_seq := sint (todo_id r)\<rparr>"
      and fresh: "sint (todo_id r) \<notin> Todo_ids s"
      and own: "sint (todo_userId r) \<in> User_ids s"
    have "Todo_pkey (snd (TodoService_create d now s))"
      using assms(1) fresh distinct_sint_ids [of "Todo_table s" r]
      by (simp add: st Todo_pkey_def Todo_ids_def)
    moreover have "Todo_userId_fkey (snd (TodoService_create d now s))"
      using assms(2) own by (simp add: st fkey_iff)
    ultimately show ?thesis by (simp add: st)
  qed
qed

lemma update_store:
  "snd (TodoService_update i p now s) = s
   \<or> (snd (TodoService_update i p now s) =
        s\<lparr>Todo_table :=
            map (\<lambda>x. if sint (todo_id x) = i then Todo_data p now x else x) (Todo_table s)\<rparr>
      \<and> (\<forall>uid. upd_userId p = Value uid \<longrightarrow> fits_INTEGER uid \<and> uid \<in> User_ids s))"
proof (cases "Todo_by_id s i")
  case None
  then have m: "i \<notin> Todo_ids s" by (simp add: Todo_by_id_None)
  show ?thesis
    by (cases "fits_INTEGER i") (simp_all add: update_missing update_out_of_range m)
next
  case (Some r)
  show ?thesis
  proof (cases "upd_userId p = Null \<or> (\<exists>uid. upd_userId p = Value uid
        \<and> (\<not> fits_INTEGER uid \<or> uid \<notin> User_ids s))")
    case True
    have "snd (TodoService_update i p now s) = s"
    proof (cases "upd_userId p")
      case Undefined
      then show ?thesis using True by simp
    next
      case Null
      then show ?thesis using Some by (simp add: update_null_user)
    next
      case (Value uid)
      show ?thesis
      proof (cases "fits_INTEGER uid")
        case False
        then show ?thesis using Some Value by (simp add: update_big_user)
      next
        case f: True
        then have "uid \<notin> User_ids s" using True Value by simp
        then show ?thesis using Some Value f by (simp add: update_missing_user)
      qed
    qed
    then show ?thesis by simp
  next
    case False
    then have ok: "\<And>uid. upd_userId p = Value uid \<Longrightarrow> fits_INTEGER uid \<and> uid \<in> User_ids s"
      and nn: "upd_userId p \<noteq> Null" by blast+
    show ?thesis
    proof (cases "upd_title p = Null \<or> upd_completed p = Null")
      case True
      from update_null_field [OF Some True ok, of now] show ?thesis by simp
    next
      case False
      then have "upd_title p \<noteq> Null" "upd_completed p \<noteq> Null" by simp_all
      from update_applies [OF Some this nn ok, of now] ok show ?thesis by simp
    qed
  qed
qed

lemma Todo_data_id [simp]: "todo_id (Todo_data p now r) = todo_id r"
  by (simp add: Todo_data_def)

lemma update_keeps_ids:
  "todo_id \<circ> (\<lambda>x. if sint (todo_id x) = i then Todo_data p now x else x) = todo_id"
  by (rule ext) simp

lemma update_keeps_constraints:
  assumes "Todo_pkey s" and "Todo_userId_fkey s"
  shows "Todo_pkey (snd (TodoService_update i p now s))
       \<and> Todo_userId_fkey (snd (TodoService_update i p now s))
       \<and> User_table (snd (TodoService_update i p now s)) = User_table s"
proof -
  from update_store [of i p now s] show ?thesis
  proof
    assume "snd (TodoService_update i p now s) = s"
    then show ?thesis using assms by simp
  next
    assume a: "snd (TodoService_update i p now s) =
        s\<lparr>Todo_table :=
            map (\<lambda>x. if sint (todo_id x) = i then Todo_data p now x else x) (Todo_table s)\<rparr>
      \<and> (\<forall>uid. upd_userId p = Value uid \<longrightarrow> fits_INTEGER uid \<and> uid \<in> User_ids s)"
    then have st: "snd (TodoService_update i p now s) =
        s\<lparr>Todo_table :=
            map (\<lambda>x. if sint (todo_id x) = i then Todo_data p now x else x) (Todo_table s)\<rparr>"
      by blast
    have own: "sint (todo_userId (Todo_data p now x)) \<in> User_ids s"
      if "x \<in> set (Todo_table s)" for x
    proof (cases "upd_userId p")
      case (Value uid)
      then show ?thesis using a by (simp add: Todo_data_owner sint_word_of_int_fits)
    next
      case Undefined
      then show ?thesis using that assms(2) by (simp add: Todo_data_owner fkey_iff)
    next
      case Null
      then show ?thesis using that assms(2) by (simp add: Todo_data_owner fkey_iff)
    qed
    have "Todo_pkey (snd (TodoService_update i p now s))"
      using assms(1) by (simp add: st Todo_pkey_def update_keeps_ids)
    moreover have "Todo_userId_fkey (snd (TodoService_update i p now s))"
      using assms(2) own by (simp add: st fkey_iff) blast
    ultimately show ?thesis by (simp add: st)
  qed
qed

lemma remove_store:
  "snd (TodoService_remove i s) = s
   \<or> snd (TodoService_remove i s)
       = s\<lparr>Todo_table := filter (\<lambda>x. sint (todo_id x) \<noteq> i) (Todo_table s)\<rparr>"
proof (cases "Todo_by_id s i")
  case None
  then have m: "i \<notin> Todo_ids s" by (simp add: Todo_by_id_None)
  show ?thesis
    by (cases "fits_INTEGER i") (simp_all add: remove_missing remove_out_of_range m)
next
  case (Some r)
  then show ?thesis by (simp add: remove_present)
qed

lemma remove_keeps_constraints:
  assumes "Todo_pkey s" and "Todo_userId_fkey s"
  shows "Todo_pkey (snd (TodoService_remove i s))
       \<and> Todo_userId_fkey (snd (TodoService_remove i s))
       \<and> User_table (snd (TodoService_remove i s)) = User_table s"
proof -
  from remove_store [of i s] show ?thesis
  proof
    assume "snd (TodoService_remove i s) = s"
    then show ?thesis using assms by simp
  next
    assume st: "snd (TodoService_remove i s) =
      s\<lparr>Todo_table := filter (\<lambda>x. sint (todo_id x) \<noteq> i) (Todo_table s)\<rparr>"
    have "Todo_pkey (snd (TodoService_remove i s))"
      using assms(1) by (simp add: st Todo_pkey_def distinct_map_filter)
    moreover have "Todo_userId_fkey (snd (TodoService_remove i s))"
      using assms(2) by (simp add: st fkey_iff)
    ultimately show ?thesis by (simp add: st)
  qed
qed

lemma user_create_store:
  "snd (UserService_create d now s) = s
   \<or> (\<exists>u. snd (UserService_create d now s)
            = s\<lparr>User_table := User_table s @ [u], User_seq := sint (user_id u)\<rparr>
          \<and> sint (user_id u) \<notin> User_ids s)"
proof (cases "fits_INTEGER (next_id (User_seq s) (map (\<lambda>u. sint (user_id u)) (User_table s)))")
  case False
  then show ?thesis by (simp add: UserService_create_def prisma_user_create_def)
next
  case True
  define k where "k = next_id (User_seq s) (map (\<lambda>u. sint (user_id u)) (User_table s))"
  define u where "u = \<lparr>user_id = (word_of_int k :: INTEGER),
               user_name = name d, user_createdAt = now, user_updatedAt = now\<rparr>"
  have id: "sint (user_id u) = k" using True by (simp add: u_def k_def sint_word_of_int_fits)
  have "k \<notin> set (map (\<lambda>u. sint (user_id u)) (User_table s))"
    unfolding k_def by (rule next_id_fresh)
  then have fresh: "sint (user_id u) \<notin> User_ids s" by (simp add: id User_ids_def)
  have "snd (UserService_create d now s)
      = s\<lparr>User_table := User_table s @ [u], User_seq := sint (user_id u)\<rparr>"
    using True by (simp add: UserService_create_def prisma_user_create_def Let_def id flip: k_def u_def)
  with fresh show ?thesis by blast
qed

lemma distinct_sint_user_ids:
  "distinct (map user_id us) \<Longrightarrow> sint (user_id u) \<notin> (\<lambda>x. sint (user_id x)) ` set us \<Longrightarrow>
     distinct (map user_id (us @ [u]))"
  by (auto simp: image_iff)

lemma user_create_keeps_constraints:
  assumes "User_pkey s" and "Todo_userId_fkey s"
  shows "User_pkey (snd (UserService_create d now s))
       \<and> Todo_userId_fkey (snd (UserService_create d now s))
       \<and> Todo_table (snd (UserService_create d now s)) = Todo_table s"
proof -
  from user_create_store [of d now s] show ?thesis
  proof (elim disjE exE conjE)
    assume "snd (UserService_create d now s) = s"
    then show ?thesis using assms by simp
  next
    fix u
    assume st: "snd (UserService_create d now s)
        = s\<lparr>User_table := User_table s @ [u], User_seq := sint (user_id u)\<rparr>"
      and fresh: "sint (user_id u) \<notin> User_ids s"
    have "User_pkey (snd (UserService_create d now s))"
      using assms(1) fresh distinct_sint_user_ids [of "User_table s" u]
      by (simp add: st User_pkey_def User_ids_def)
    moreover have "Todo_userId_fkey (snd (UserService_create d now s))"
      using assms(2) by (simp add: st fkey_iff User_ids_def)
    ultimately show ?thesis by (simp add: st)
  qed
qed

lemma User_data_id [simp]: "user_id (User_data d now u) = user_id u"
  by (cases "upd_name d") (simp_all add: User_data_def)

lemma user_update_keeps_ids:
  "(\<lambda>u. sint (user_id u)) \<circ> (\<lambda>x. if sint (user_id x) = i then User_data d now x else x)
     = (\<lambda>u. sint (user_id u))"
  "user_id \<circ> (\<lambda>x. if sint (user_id x) = i then User_data d now x else x) = user_id"
  by (rule ext, simp)+

lemma user_update_store:
  "snd (UserService_update i d now s) = s
   \<or> snd (UserService_update i d now s) =
        s\<lparr>User_table :=
            map (\<lambda>x. if sint (user_id x) = i then User_data d now x else x) (User_table s)\<rparr>"
proof (cases "User_by_id s i")
  case None
  then show ?thesis
    by (cases "fits_INTEGER i")
      (simp_all add: UserService_update_def UserService_findOne_def prisma_user_findUnique_def)
next
  case (Some u)
  then show ?thesis
    using User_by_id_fits [OF Some]
    by (cases "upd_name d = Null")
      (simp_all add: UserService_update_def user_findOne_present prisma_user_update_def Let_def)
qed

lemma user_update_keeps_constraints:
  assumes "User_pkey s" and "Todo_userId_fkey s"
  shows "User_pkey (snd (UserService_update i d now s))
       \<and> Todo_userId_fkey (snd (UserService_update i d now s))
       \<and> Todo_table (snd (UserService_update i d now s)) = Todo_table s"
proof -
  from user_update_store [of i d now s] show ?thesis
  proof
    assume "snd (UserService_update i d now s) = s"
    then show ?thesis using assms by simp
  next
    assume st: "snd (UserService_update i d now s) =
        s\<lparr>User_table :=
            map (\<lambda>x. if sint (user_id x) = i then User_data d now x else x) (User_table s)\<rparr>"
    have ids: "User_ids (snd (UserService_update i d now s)) = User_ids s"
      by (simp add: st User_ids_def image_comp user_update_keeps_ids flip: set_map)
    have "User_pkey (snd (UserService_update i d now s))"
      using assms(1) by (simp add: st User_pkey_def user_update_keeps_ids)
    moreover have "Todo_userId_fkey (snd (UserService_update i d now s))"
      using assms(2) unfolding fkey_iff ids by (simp add: st)
    ultimately show ?thesis by (simp add: st)
  qed
qed

lemma user_remove_store:
  "snd (UserService_remove uid s) = s
   \<or> snd (UserService_remove uid s) =
        s\<lparr>User_table := filter (\<lambda>x. sint (user_id x) \<noteq> uid) (User_table s),
          Todo_table := filter (\<lambda>t. sint (todo_userId t) \<noteq> uid) (Todo_table s)\<rparr>"
proof (cases "User_by_id s uid")
  case None
  then show ?thesis
    by (cases "fits_INTEGER uid")
      (simp_all add: UserService_remove_def UserService_findOne_def prisma_user_findUnique_def)
next
  case (Some u)
  then show ?thesis by (simp add: user_remove_present)
qed

lemma user_remove_keeps_constraints:
  assumes "User_pkey s" and "Todo_pkey s" and "Todo_userId_fkey s"
  shows "User_pkey (snd (UserService_remove uid s))
       \<and> Todo_pkey (snd (UserService_remove uid s))
       \<and> Todo_userId_fkey (snd (UserService_remove uid s))"
proof -
  from user_remove_store [of uid s] show ?thesis
  proof
    assume "snd (UserService_remove uid s) = s"
    then show ?thesis using assms by simp
  next
    assume st: "snd (UserService_remove uid s) =
        s\<lparr>User_table := filter (\<lambda>x. sint (user_id x) \<noteq> uid) (User_table s),
          Todo_table := filter (\<lambda>t. sint (todo_userId t) \<noteq> uid) (Todo_table s)\<rparr>"
    have "User_pkey (snd (UserService_remove uid s))"
      using assms(1) by (simp add: st User_pkey_def distinct_map_filter)
    moreover have "Todo_pkey (snd (UserService_remove uid s))"
      using assms(2) by (simp add: st Todo_pkey_def distinct_map_filter)
    moreover have "Todo_userId_fkey (snd (UserService_remove uid s))"
      unfolding fkey_iff
    proof
      fix t assume t: "t \<in> set (Todo_table (snd (UserService_remove uid s)))"
      then have t1: "t \<in> set (Todo_table s)" and t2: "sint (todo_userId t) \<noteq> uid"
        by (simp_all add: st)
      from assms(3) t1 obtain u where u: "u \<in> set (User_table s)"
        and o: "sint (user_id u) = sint (todo_userId t)"
        unfolding fkey_iff User_ids_def by (metis (no_types, lifting) imageE)
      from u o t2 have "u \<in> set (filter (\<lambda>x. sint (user_id x) \<noteq> uid) (User_table s))" by simp
      then have "sint (user_id u) \<in> User_ids (snd (UserService_remove uid s))"
        unfolding User_ids_def st by (intro imageI) simp
      then show "sint (todo_userId t) \<in> User_ids (snd (UserService_remove uid s))"
        using o by simp
    qed
    ultimately show ?thesis by blast
  qed
qed

lemma scenario_store_reached:
  "snd (TodoService_create \<lparr>title = ''Buy milk'', completed = Undefined, userId = 1\<rparr> 200
         (snd (UserService_create \<lparr>name = ''Ann''\<rparr> 100 empty_store))) = scenario_store"
  by (simp add: UserService_create_def prisma_user_create_def TodoService_create_def
      prisma_user_findUnique_def prisma_todo_create_def User_by_id_def next_id_def Let_def
      empty_store_def scenario_store_def Ann_def Buy_milk_def fits_INTEGER_def)

end
